theory Spec2Isabelle
  imports Complex_Main
begin

section \<open>JavaScript values\<close>

text \<open>
  The handlers of \<^verbatim>\<open>POST /api/generate\<close> read \<^verbatim>\<open>req.body\<close>, the value
  \<^verbatim>\<open>express.json()\<close> parsed from the request, so their input is any JSON value.
  A number is the real value of a double, or one of the three special doubles
  (\<^verbatim>\<open>JSON.parse("1e999")\<close> is \<^verbatim>\<open>Infinity\<close>); \<^verbatim>\<open>-0\<close> behaves as \<^verbatim>\<open>0\<close> in every
  operation used here. A string is the list of its code units; the images are
  base64 text, one \<^typ>\<open>char\<close> per unit. An object is the list of its own properties
  in enumeration order, each key once.
\<close>

datatype jsnum = NaN | PosInf | NegInf | Fin real

datatype jsval =
    JUndefined
  | JNull
  | JBool bool
  | JNum jsnum
  | JStr string
  | JArr "jsval list"
  | JObj "(string \<times> jsval) list"

text \<open>
  What \<^verbatim>\<open>throw\<close> carries: the fields of an error object that the handlers read.
  The engine and the SDK of the generation service throw \<^verbatim>\<open>Error\<close> objects, whose
  \<^verbatim>\<open>message\<close> is a string; \<^verbatim>\<open>status\<close> and \<^verbatim>\<open>errorDetails\<close> are whatever the service
  sent, or \<^verbatim>\<open>undefined\<close>.
\<close>

record js_error =
  message :: string
  status :: jsval
  errorDetails :: jsval
  stack :: jsval

text \<open>
  Built-ins of the engine that the model does not spell out: printing a number that
  is not a small integer, reading a string that is not a plain decimal, and the text
  of the stack trace of an error, given its name and message.
\<close>

record engine =
  number_to_string :: "real \<Rightarrow> string"
  string_to_number :: "string \<Rightarrow> jsnum"
  stack_trace :: "string \<Rightarrow> string \<Rightarrow> string"

definition type_error :: "engine \<Rightarrow> string \<Rightarrow> js_error" where
  "type_error eng msg =
     \<lparr>message = msg, status = JUndefined, errorDetails = JUndefined,
      stack = JStr (stack_trace eng ''TypeError'' msg)\<rparr>"

definition new_Error :: "engine \<Rightarrow> string \<Rightarrow> js_error" where
  "new_Error eng msg =
     \<lparr>message = msg, status = JUndefined, errorDetails = JUndefined,
      stack = JStr (stack_trace eng ''Error'' msg)\<rparr>"

definition bind :: "js_error + 'a \<Rightarrow> ('a \<Rightarrow> js_error + 'b) \<Rightarrow> js_error + 'b" where
  "bind r f = (case r of Inl e \<Rightarrow> Inl e | Inr x \<Rightarrow> f x)"

subsection \<open>Truthiness, typeof, property reads\<close>

fun truthy :: "jsval \<Rightarrow> bool" where
  "truthy JUndefined = False"
| "truthy JNull = False"
| "truthy (JBool b) = b"
| "truthy (JNum n) = (n \<noteq> NaN \<and> n \<noteq> Fin 0)"
| "truthy (JStr s) = (s \<noteq> [])"
| "truthy (JArr xs) = True"
| "truthy (JObj kvs) = True"

fun js_typeof :: "jsval \<Rightarrow> string" where
  "js_typeof JUndefined = ''undefined''"
| "js_typeof JNull = ''object''"
| "js_typeof (JBool b) = ''boolean''"
| "js_typeof (JNum n) = ''number''"
| "js_typeof (JStr s) = ''string''"
| "js_typeof (JArr xs) = ''object''"
| "js_typeof (JObj kvs) = ''object''"

fun nullish :: "jsval \<Rightarrow> bool" where
  "nullish JUndefined = True"
| "nullish JNull = True"
| "nullish v = False"

text \<open>
  \<open>js_prop v k\<close> is \<^verbatim>\<open>v.k\<close> for a \<open>v\<close> that is not \<^verbatim>\<open>null\<close> or \<^verbatim>\<open>undefined\<close>, for the
  names the handlers read (\<^verbatim>\<open>imageData\<close>, \<^verbatim>\<open>pitch\<close>, \<^verbatim>\<open>bearing\<close>, \<^verbatim>\<open>zoom\<close>,
  \<^verbatim>\<open>location\<close>, \<^verbatim>\<open>lat\<close>, \<^verbatim>\<open>lng\<close>, \<^verbatim>\<open>length\<close>, \<^verbatim>\<open>fieldViolations\<close>, \<^verbatim>\<open>field\<close>,
  \<^verbatim>\<open>description\<close>): none of them is inherited from a prototype, and only strings and
  arrays have a \<^verbatim>\<open>length\<close> of their own.
\<close>

fun js_prop :: "jsval \<Rightarrow> string \<Rightarrow> jsval" where
  "js_prop (JObj kvs) k = (case map_of kvs k of None \<Rightarrow> JUndefined | Some v \<Rightarrow> v)"
| "js_prop (JStr s) k = (if k = ''length'' then JNum (Fin (real (length s))) else JUndefined)"
| "js_prop (JArr xs) k = (if k = ''length'' then JNum (Fin (real (length xs))) else JUndefined)"
| "js_prop v k = JUndefined"

definition cannot_read :: "jsval \<Rightarrow> string \<Rightarrow> string" where
  "cannot_read v k =
     ''Cannot read properties of '' @ (if v = JNull then ''null'' else ''undefined'') @
     '' (reading '' @ [CHR 0x27] @ k @ [CHR 0x27] @ '')''"

definition get_prop :: "engine \<Rightarrow> jsval \<Rightarrow> string \<Rightarrow> js_error + jsval" where
  "get_prop eng v k =
     (if nullish v then Inl (type_error eng (cannot_read v k)) else Inr (js_prop v k))"

subsection \<open>Numbers and strings\<close>

definition digit_char :: "nat \<Rightarrow> char" where
  "digit_char d = ''0123456789'' ! d"

fun show_nat :: "nat \<Rightarrow> string" where
  "show_nat n = (if n < 10 then [digit_char n] else show_nat (n div 10) @ [digit_char (n mod 10)])"

declare show_nat.simps [simp del]

text \<open>
  \<^verbatim>\<open>Number::toString\<close> prints the shortest digits that read back as the same double.
  Every integer below \<open>2\<^sup>5\<^sup>3\<close> is a double of its own, so for such an integer
  these are its decimal digits; the printing of every other finite number is the
  engine's.
\<close>

fun num_to_string :: "engine \<Rightarrow> jsnum \<Rightarrow> string" where
  "num_to_string eng NaN = ''NaN''"
| "num_to_string eng PosInf = ''Infinity''"
| "num_to_string eng NegInf = ''-Infinity''"
| "num_to_string eng (Fin x) =
     (if x = of_int \<lfloor>x\<rfloor> \<and> \<bar>x\<bar> < 2 ^ 53
      then (if x < 0 then ''-'' else '''') @ show_nat (nat \<lfloor>\<bar>x\<bar>\<rfloor>)
      else number_to_string eng x)"

text \<open>
  \<^verbatim>\<open>Number.prototype.toFixed(f)\<close>: below \<open>10\<^sup>2\<^sup>1\<close> the integer \<open>n\<close> nearest to
  \<open>x * 10\<^sup>f\<close> (the larger one on a tie) is printed with \<open>f\<close> digits after the point.
\<close>

definition fixed_digits :: "nat \<Rightarrow> nat \<Rightarrow> string" where
  "fixed_digits f n =
     (let m = show_nat n in
      if f = 0 then m
      else let m' = (if length m \<le> f then replicate (f + 1 - length m) (CHR ''0'') @ m else m);
               k = length m'
           in take (k - f) m' @ ''.'' @ drop (k - f) m')"

fun toFixed :: "engine \<Rightarrow> nat \<Rightarrow> jsnum \<Rightarrow> string" where
  "toFixed eng f (Fin x) =
     (if \<bar>x\<bar> \<ge> 10 ^ 21 then num_to_string eng (Fin x)
      else (if x < 0 then ''-'' else '''') @ fixed_digits f (nat \<lfloor>\<bar>x\<bar> * 10 ^ f + 1 / 2\<rfloor>))"
| "toFixed eng f n = num_to_string eng n"

text \<open>
  \<^verbatim>\<open>StringToNumber\<close>: a plain decimal of at most fifteen digits (\<^verbatim>\<open>15.00\<close>, \<^verbatim>\<open>-3\<close>,
  \<^verbatim>\<open>007.5\<close>) is read here, its exact value standing for the nearest double. Decimals
  of fifteen digits are rounded to doubles of their own, in the same order, so the
  value is zero, or above 0, 15, 45 or 60, exactly when the double is. Every other
  string (more digits, blanks, exponents, hex, \<^verbatim>\<open>Infinity\<close>, the empty string) is the
  engine's to read.
\<close>

definition is_digit :: "char \<Rightarrow> bool" where
  "is_digit c = (48 \<le> (of_char c :: nat) \<and> (of_char c :: nat) \<le> 57)"

definition digit_val :: "char \<Rightarrow> nat" where
  "digit_val c = of_char c - 48"

definition all_digits :: "string \<Rightarrow> bool" where
  "all_digits s = (s \<noteq> [] \<and> list_all is_digit s)"

definition digits_value :: "string \<Rightarrow> nat" where
  "digits_value s = foldl (\<lambda>a c. 10 * a + digit_val c) 0 s"

definition parse_unsigned :: "string \<Rightarrow> real option" where
  "parse_unsigned s =
     (let a = takeWhile (\<lambda>c. c \<noteq> CHR ''.'') s;
          r = dropWhile (\<lambda>c. c \<noteq> CHR ''.'') s
      in if \<not> all_digits a \<or> 15 < length a + length (tl r) then None
         else if r = [] then Some (real (digits_value a))
         else if all_digits (tl r)
              then Some (real (digits_value a) + real (digits_value (tl r)) / 10 ^ length (tl r))
              else None)"

definition parse_decimal :: "string \<Rightarrow> real option" where
  "parse_decimal s =
     (case s of
        [] \<Rightarrow> None
      | c # t \<Rightarrow> if c = CHR ''-'' then map_option uminus (parse_unsigned t) else parse_unsigned s)"

definition str_to_num :: "engine \<Rightarrow> string \<Rightarrow> jsnum" where
  "str_to_num eng s = (case parse_decimal s of Some x \<Rightarrow> Fin x | None \<Rightarrow> string_to_number eng s)"

text \<open>
  \<^verbatim>\<open>ToString\<close> of an object first asks for a primitive: a parsed JSON object holds no
  function, so an own property \<^verbatim>\<open>toString\<close> hides the inherited method and the
  conversion throws a TypeError; an array joins the strings of its elements.
\<close>

fun stringifiable :: "jsval \<Rightarrow> bool" where
  "stringifiable (JObj kvs) = (''toString'' \<notin> fst ` set kvs)"
| "stringifiable (JArr xs) = list_all stringifiable xs"
| "stringifiable v = True"

fun join_comma :: "string list \<Rightarrow> string" where
  "join_comma [] = []"
| "join_comma [s] = s"
| "join_comma (s # t) = s @ '','' @ join_comma t"

fun js_str :: "engine \<Rightarrow> jsval \<Rightarrow> string" where
  "js_str eng JUndefined = ''undefined''"
| "js_str eng JNull = ''null''"
| "js_str eng (JBool b) = (if b then ''true'' else ''false'')"
| "js_str eng (JNum n) = num_to_string eng n"
| "js_str eng (JStr s) = s"
| "js_str eng (JArr xs) = join_comma (map (\<lambda>x. if nullish x then [] else js_str eng x) xs)"
| "js_str eng (JObj kvs) = ''[object Object]''"

definition to_string :: "engine \<Rightarrow> jsval \<Rightarrow> js_error + string" where
  "to_string eng v =
     (if stringifiable v then Inr (js_str eng v)
      else Inl (type_error eng ''Cannot convert object to primitive value''))"

text \<open>\<^verbatim>\<open>ToNumber\<close>, as the operators \<^verbatim>\<open>*\<close> and \<^verbatim>\<open>>\<close> apply it to an operand.\<close>

fun to_number :: "engine \<Rightarrow> jsval \<Rightarrow> js_error + jsnum" where
  "to_number eng JUndefined = Inr NaN"
| "to_number eng JNull = Inr (Fin 0)"
| "to_number eng (JBool b) = Inr (Fin (if b then 1 else 0))"
| "to_number eng (JNum n) = Inr n"
| "to_number eng (JStr s) = Inr (str_to_num eng s)"
| "to_number eng v = bind (to_string eng v) (\<lambda>s. Inr (str_to_num eng s))"

fun num_gt :: "jsnum \<Rightarrow> real \<Rightarrow> bool" where
  "num_gt NaN c = False"
| "num_gt PosInf c = True"
| "num_gt NegInf c = False"
| "num_gt (Fin x) c = (x > c)"

definition js_gt :: "engine \<Rightarrow> jsval \<Rightarrow> real \<Rightarrow> js_error + bool" where
  "js_gt eng v c = bind (to_number eng v) (\<lambda>n. Inr (num_gt n c))"

text \<open>
  Multiplying and dividing by a positive constant. The products taken here, of a
  string's length with \<^verbatim>\<open>0.75\<close> and the quotient by \<open>2\<^sup>2\<^sup>0\<close>, are exact in
  doubles for every length below \<open>2\<^sup>5\<^sup>1\<close>.
\<close>

fun num_times :: "jsnum \<Rightarrow> real \<Rightarrow> jsnum" where
  "num_times (Fin x) c = Fin (x * c)"
| "num_times n c = n"

fun num_over :: "jsnum \<Rightarrow> real \<Rightarrow> jsnum" where
  "num_over (Fin x) c = Fin (x / c)"
| "num_over n c = n"

subsection \<open>Template literals and \<^verbatim>\<open>Object.keys\<close>\<close>

text \<open>
  A template literal converts its substitutions to strings from left to right and
  throws where one of them throws. A \<^verbatim>\<open>console.log\<close> of a template is this
  evaluation with the text dropped.
\<close>

datatype part = Lit string | Sub jsval

fun template :: "engine \<Rightarrow> part list \<Rightarrow> js_error + string" where
  "template eng [] = Inr []"
| "template eng (Lit s # ps) = bind (template eng ps) (\<lambda>r. Inr (s @ r))"
| "template eng (Sub v # ps) =
     bind (to_string eng v) (\<lambda>s. bind (template eng ps) (\<lambda>r. Inr (s @ r)))"

fun object_keys :: "jsval \<Rightarrow> jsval list" where
  "object_keys (JObj kvs) = map (\<lambda>kv. JStr (fst kv)) kvs"
| "object_keys (JArr xs) = map (\<lambda>i. JStr (show_nat i)) [0..<length xs]"
| "object_keys (JStr s) = map (\<lambda>i. JStr (show_nat i)) [0..<length s]"
| "object_keys v = []"

text \<open>The two symbols of the source outside ASCII, as their UTF-8 bytes.\<close>

definition warning_sign :: string where
  "warning_sign = [CHR 0xE2, CHR 0x9A, CHR 0xA0, CHR 0xEF, CHR 0xB8, CHR 0x8F]"

definition degree_sign :: string where
  "degree_sign = [CHR 0xC2, CHR 0xB0]"

section \<open>The three servers\<close>

text \<open>
  What a request meets outside its own body: the clock read by
  \<^verbatim>\<open>new Date().toISOString()\<close>, the draw of \<^verbatim>\<open>Math.random()\<close>, and what the external
  generation service does with the one call the handler makes.
\<close>

datatype backend_outcome =
    Rejects js_error
  | NoResult
  | NoResponse
  | TextThrows js_error
  | Text string

record world =
  now :: string
  random :: real
  outcome :: backend_outcome

record response =
  status_code :: nat
  json :: jsval

definition data_url_prefix :: string where
  "data_url_prefix = ''data:image/png;base64,''"

text \<open>
  \<^verbatim>\<open>imageData.length * 0.75\<close>, then \<^verbatim>\<open>(sizeInBytes / (1024 * 1024)).toFixed(2)\<close>:
  the size in MB as a string.
\<close>

definition size_in_mb :: "engine \<Rightarrow> jsval \<Rightarrow> js_error + string" where
  "size_in_mb eng imageData =
     bind (to_number eng (js_prop imageData ''length'')) (\<lambda>len.
       let sizeInBytes = num_times len 0.75
       in Inr (toFixed eng 2 (num_over sizeInBytes (1024 * 1024))))"

text \<open>The two log lines after validation: location, then camera.\<close>

definition log_request :: "engine \<Rightarrow> jsval \<Rightarrow> jsval \<Rightarrow> jsval \<Rightarrow> jsval \<Rightarrow> js_error + unit" where
  "log_request eng location pitch bearing zoom =
     bind (template eng [Lit ''Location: '', Sub (js_prop location ''lat''), Lit '', '',
                         Sub (js_prop location ''lng'')]) (\<lambda>_.
     bind (template eng [Lit ''Camera: Pitch '', Sub pitch, Lit degree_sign, Lit '', Bearing '',
                         Sub bearing, Lit degree_sign, Lit '', Zoom '', Sub zoom]) (\<lambda>_.
     Inr ()))"

definition metadata_camera :: "jsval \<Rightarrow> jsval \<Rightarrow> jsval \<Rightarrow> jsval" where
  "metadata_camera pitch bearing zoom =
     JObj [(''pitch'', pitch), (''bearing'', bearing), (''zoom'', zoom)]"

subsection \<open>The echo server (simple-server.js)\<close>

text \<open>
  \<^verbatim>\<open>v.toFixed(f)\<close>, for the \<open>v\<close> that \<open>name\<close> stands for in the source: numbers
  alone have the method, so the call throws on every other value.
\<close>

definition call_toFixed :: "engine \<Rightarrow> string \<Rightarrow> jsval \<Rightarrow> nat \<Rightarrow> js_error + string" where
  "call_toFixed eng name v f =
     (case v of
        JNum n \<Rightarrow> Inr (toFixed eng f n)
      | _ \<Rightarrow> if nullish v
             then bind (get_prop eng v ''toFixed'') (\<lambda>_. Inr [])
             else Inl (type_error eng (name @ ''.toFixed is not a function'')))"

text \<open>The array of the five description templates, evaluated in order.\<close>

definition descriptions :: "engine \<Rightarrow> jsval \<Rightarrow> jsval \<Rightarrow> jsval \<Rightarrow> jsval \<Rightarrow> js_error + string list" where
  "descriptions eng location pitch bearing zoom =
     bind (call_toFixed eng ''location.lat'' (js_prop location ''lat'') 4) (\<lambda>lat4.
     bind (call_toFixed eng ''location.lng'' (js_prop location ''lng'') 4) (\<lambda>lng4.
     bind (js_gt eng pitch 60) (\<lambda>high.
     bind (template eng [Lit ''Map view rendered with '', Sub bearing, Lit degree_sign,
                         Lit '' rotation, showing intricate urban details'']) (\<lambda>d2.
     bind (template eng [Lit ''High-definition capture at zoom level '', Sub zoom,
                         Lit '', revealing architectural patterns'']) (\<lambda>d3.
     bind (template eng [Lit ''Photographic simulation of urban environment with '', Sub pitch,
                         Lit degree_sign, Lit '' pitch angle'']) (\<lambda>d4.
     Inr [''Captured stunning aerial view of urban landscape at '' @ lat4 @ degree_sign @
            ''N, '' @ lng4 @ degree_sign @ ''E'',
          ''Beautiful '' @ (if high then ''bird's eye'' else ''street-level'') @
            '' perspective of the cityscape'',
          d2, d3, d4]))))))"

text \<open>\<^verbatim>\<open>descriptions[Math.floor(Math.random() * descriptions.length)]\<close>\<close>

definition pick_random :: "real \<Rightarrow> string list \<Rightarrow> jsval" where
  "pick_random r ds =
     (let i = \<lfloor>r * real (length ds)\<rfloor>
      in if 0 \<le> i \<and> nat i < length ds then JStr (ds ! nat i) else JUndefined)"

definition echo_note :: string where
  "echo_note = ''\<newline>\<newline>'' @ warning_sign @
     '' Note: This is the original map image. To get AI-generated 3D visualization, you need to configure Gemini API or use another AI service.''"

text \<open>
  The body of the \<^verbatim>\<open>try\<close> block: \<open>Inr\<close> is the response it sends, \<open>Inl\<close> the
  exception that leaves it. The simulated delay of one second changes no value.
\<close>

definition try_echo :: "engine \<Rightarrow> world \<Rightarrow> jsval \<Rightarrow> js_error + response" where
  "try_echo eng w reqbody =
     (if nullish reqbody
      then Inl (type_error eng
             (''Cannot destructure property 'imageData' of 'req.body' as it is '' @
              (if reqbody = JNull then ''null'' else ''undefined'') @ ''.''))
      else
        let imageData = js_prop reqbody ''imageData''; pitch = js_prop reqbody ''pitch'';
            bearing = js_prop reqbody ''bearing''; zoom = js_prop reqbody ''zoom'';
            location = js_prop reqbody ''location''
        in
        bind (if truthy imageData
              then template eng [Sub (js_prop imageData ''length''), Lit '' chars'']
              else Inr ''MISSING'') (\<lambda>_.
        if \<not> truthy imageData
        then Inr \<lparr>status_code = 400,
                  json = JObj [(''error'', JStr ''No image data provided''),
                               (''received'', JArr (object_keys reqbody))]\<rparr>
        else if \<not> truthy location
                \<or> js_typeof (js_prop location ''lat'') = ''undefined''
                \<or> js_typeof (js_prop location ''lng'') = ''undefined''
        then Inr \<lparr>status_code = 400,
                  json = JObj [(''error'', JStr ''Invalid location data''),
                               (''received'', location)]\<rparr>
        else
        bind (log_request eng location pitch bearing zoom) (\<lambda>_.
        bind (size_in_mb eng imageData) (\<lambda>sizeInMB.
        bind (descriptions eng location pitch bearing zoom) (\<lambda>ds.
        let randomDescription = pick_random (random w) ds in
        bind (to_string eng imageData) (\<lambda>image.
        Inr \<lparr>status_code = 200,
             json = JObj
               [(''success'', JBool True),
                (''image'', JStr (data_url_prefix @ image)),
                (''description'', JStr (js_str eng randomDescription @ echo_note)),
                (''metadata'', JObj
                   [(''location'', location),
                    (''camera'', metadata_camera pitch bearing zoom),
                    (''imageSize'', JStr (sizeInMB @ '' MB'')),
                    (''timestamp'', JStr (now w)),
                    (''note'', JStr ''No AI processing - original map returned'')])]\<rparr>))))))"

definition handler_echo :: "engine \<Rightarrow> world \<Rightarrow> jsval \<Rightarrow> response" where
  "handler_echo eng w reqbody =
     (case try_echo eng w reqbody of
        Inr r \<Rightarrow> r
      | Inl error \<Rightarrow>
          \<lparr>status_code = 500,
           json = JObj
             [(''error'', JStr (if message error \<noteq> [] then message error
                                else ''Failed to process request'')),
              (''details'', stack error),
              (''timestamp'', JStr (now w))]\<rparr>)"

subsection \<open>The single-provider server\<close>

text \<open>
  The prompt sent to the service interpolates \<^verbatim>\<open>location.lat\<close>, \<^verbatim>\<open>location.lng\<close>,
  \<^verbatim>\<open>pitch\<close>, \<^verbatim>\<open>bearing\<close> and \<^verbatim>\<open>zoom\<close>, the values the log lines before it have
  already converted to strings, so building it throws nothing new; what the service
  answers to it is the \<open>outcome\<close> of the world.
\<close>

definition generate_single :: "engine \<Rightarrow> backend_outcome \<Rightarrow> js_error + string" where
  "generate_single eng out =
     (case out of
        Rejects e \<Rightarrow> Inl e
      | NoResult \<Rightarrow> Inl (new_Error eng ''No response from Gemini API'')
      | NoResponse \<Rightarrow> Inl (new_Error eng ''No response from Gemini API'')
      | TextThrows e \<Rightarrow> Inl e
      | Text description \<Rightarrow> Inr description)"

text \<open>
  The logging of \<^verbatim>\<open>geminiError.errorDetails\<close> in the inner catch block calls
  \<^verbatim>\<open>forEach\<close> on it and on every \<^verbatim>\<open>fieldViolations\<close> it finds; \<open>Some msg\<close> is the
  TypeError this throws on a value of another shape.
\<close>

fun first_error :: "('a \<Rightarrow> string option) \<Rightarrow> 'a list \<Rightarrow> string option" where
  "first_error f [] = None"
| "first_error f (x # xs) = (case f x of Some msg \<Rightarrow> Some msg | None \<Rightarrow> first_error f xs)"

definition log_violation :: "jsval \<Rightarrow> string option" where
  "log_violation v =
     (if nullish v then Some (cannot_read v ''field'')
      else if \<not> stringifiable (js_prop v ''field'') \<or> \<not> stringifiable (js_prop v ''description'')
      then Some ''Cannot convert object to primitive value''
      else None)"

definition log_detail :: "jsval \<Rightarrow> string option" where
  "log_detail detail =
     (if nullish detail then Some (cannot_read detail ''fieldViolations'')
      else if truthy (js_prop detail ''fieldViolations'')
      then (case js_prop detail ''fieldViolations'' of
              JArr vs \<Rightarrow> first_error log_violation vs
            | _ \<Rightarrow> Some ''detail.fieldViolations.forEach is not a function'')
      else None)"

definition log_error_details :: "jsval \<Rightarrow> string option" where
  "log_error_details details =
     (if truthy details
      then (case details of
              JArr ds \<Rightarrow> first_error log_detail ds
            | _ \<Rightarrow> Some ''geminiError.errorDetails.forEach is not a function'')
      else None)"

definition failure_description :: "js_error \<Rightarrow> string" where
  "failure_description geminiError =
     warning_sign @ '' AI generation failed: '' @ message geminiError @
     ''\<newline>\<newline>Returning original map image.''"

definition delegate_single ::
  "engine \<Rightarrow> world \<Rightarrow> jsval \<Rightarrow> jsval \<Rightarrow> jsval \<Rightarrow> jsval \<Rightarrow> jsval \<Rightarrow> string \<Rightarrow> js_error + response" where
  "delegate_single eng w imageData pitch bearing zoom location sizeInMB =
     (case bind (generate_single eng (outcome w)) (\<lambda>description.
             bind (to_string eng imageData) (\<lambda>image.
             Inr \<lparr>status_code = 200,
                  json = JObj
                    [(''success'', JBool True),
                     (''image'', JStr (data_url_prefix @ image)),
                     (''description'', JStr description),
                     (''metadata'', JObj
                        [(''location'', location),
                         (''camera'', metadata_camera pitch bearing zoom),
                         (''imageSize'', JStr (sizeInMB @ '' MB'')),
                         (''model'', JStr ''gemini-1.5-flash''),
                         (''timestamp'', JStr (now w))])]\<rparr>)) of
        Inr r \<Rightarrow> Inr r
      | Inl geminiError \<Rightarrow>
          (case log_error_details (errorDetails geminiError) of
             Some msg \<Rightarrow> Inl (type_error eng msg)
           | None \<Rightarrow>
               bind (to_string eng imageData) (\<lambda>image.
               Inr \<lparr>status_code = 200,
                    json = JObj
                      [(''success'', JBool False),
                       (''image'', JStr (data_url_prefix @ image)),
                       (''description'', JStr (failure_description geminiError)),
                       (''error'', JObj
                          [(''message'', JStr (message geminiError)),
                           (''status'', status geminiError),
                           (''details'', errorDetails geminiError)]),
                       (''metadata'', JObj
                          [(''location'', location),
                           (''camera'', metadata_camera pitch bearing zoom),
                           (''timestamp'', JStr (now w))])]\<rparr>)))"

definition try_single :: "engine \<Rightarrow> world \<Rightarrow> jsval \<Rightarrow> js_error + response" where
  "try_single eng w reqbody =
     (if nullish reqbody
      then Inl (type_error eng ''Cannot convert undefined or null to object'')
      else
        let imageData = js_prop reqbody ''imageData''; pitch = js_prop reqbody ''pitch'';
            bearing = js_prop reqbody ''bearing''; zoom = js_prop reqbody ''zoom'';
            location = js_prop reqbody ''location''
        in
        if \<not> truthy imageData
        then Inr \<lparr>status_code = 400,
                  json = JObj [(''error'', JStr ''No image data provided'')]\<rparr>
        else if \<not> truthy location
                \<or> \<not> truthy (js_prop location ''lat'')
                \<or> \<not> truthy (js_prop location ''lng'')
        then Inr \<lparr>status_code = 400,
                  json = JObj [(''error'', JStr ''Invalid location data'')]\<rparr>
        else
        bind (size_in_mb eng imageData) (\<lambda>sizeInMB.
        bind (js_gt eng (JStr sizeInMB) 15) (\<lambda>too_large.
        if too_large
        then Inr \<lparr>status_code = 400,
                  json = JObj
                    [(''error'', JStr ''Image too large. Please zoom out or reduce resolution.''),
                     (''size'', JStr (sizeInMB @ '' MB'')),
                     (''limit'', JStr ''15 MB'')]\<rparr>
        else
        bind (log_request eng location pitch bearing zoom) (\<lambda>_.
        delegate_single eng w imageData pitch bearing zoom location sizeInMB))))"

definition handler_single :: "engine \<Rightarrow> world \<Rightarrow> jsval \<Rightarrow> response" where
  "handler_single eng w reqbody =
     (case try_single eng w reqbody of
        Inr r \<Rightarrow> r
      | Inl error \<Rightarrow>
          \<lparr>status_code = 500,
           json = JObj
             [(''error'', JStr (if message error \<noteq> [] then message error
                                else ''Failed to generate image'')),
              (''stack'', stack error)]\<rparr>)"

subsection \<open>The multi-provider server (server.js), \<^verbatim>\<open>POST /api/generate\<close>\<close>

text \<open>
  This handler has one \<^verbatim>\<open>try\<close> block: it checks \<^verbatim>\<open>imageData\<close> only, reads
  \<^verbatim>\<open>location.lat\<close> for its log line without a check of \<^verbatim>\<open>location\<close>, and every
  exception, the service's included, ends in its \<^verbatim>\<open>catch\<close>. Its prompt adds the
  comparisons \<^verbatim>\<open>pitch > 45\<close> and \<^verbatim>\<open>location.lat > 0\<close> to the interpolations of the
  log lines; \<^verbatim>\<open>result.response\<close> and \<^verbatim>\<open>response.text()\<close> are read without a check.
\<close>

definition generate_multi :: "engine \<Rightarrow> backend_outcome \<Rightarrow> js_error + string" where
  "generate_multi eng out =
     (case out of
        Rejects e \<Rightarrow> Inl e
      | NoResult \<Rightarrow> bind (get_prop eng JUndefined ''response'') (\<lambda>_. Inr [])
      | NoResponse \<Rightarrow> bind (get_prop eng JUndefined ''text'') (\<lambda>_. Inr [])
      | TextThrows e \<Rightarrow> Inl e
      | Text description \<Rightarrow> Inr description)"

definition try_multi :: "engine \<Rightarrow> world \<Rightarrow> jsval \<Rightarrow> js_error + response" where
  "try_multi eng w reqbody =
     (if nullish reqbody
      then Inl (type_error eng
             (''Cannot destructure property 'imageData' of 'req.body' as it is '' @
              (if reqbody = JNull then ''null'' else ''undefined'') @ ''.''))
      else
        let imageData = js_prop reqbody ''imageData''; pitch = js_prop reqbody ''pitch'';
            bearing = js_prop reqbody ''bearing''; zoom = js_prop reqbody ''zoom'';
            location = js_prop reqbody ''location''
        in
        if \<not> truthy imageData
        then Inr \<lparr>status_code = 400,
                  json = JObj [(''error'', JStr ''No image data provided'')]\<rparr>
        else
        bind (get_prop eng location ''lat'') (\<lambda>_.
        bind (log_request eng location pitch bearing zoom) (\<lambda>_.
        bind (js_gt eng pitch 45) (\<lambda>_.
        bind (js_gt eng (js_prop location ''lat'') 0) (\<lambda>_.
        bind (generate_multi eng (outcome w)) (\<lambda>description.
        bind (to_string eng imageData) (\<lambda>image.
        Inr \<lparr>status_code = 200,
             json = JObj
               [(''success'', JBool True),
                (''image'', JStr (data_url_prefix @ image)),
                (''description'', JStr description),
                (''metadata'', JObj
                   [(''location'', location),
                    (''camera'', metadata_camera pitch bearing zoom),
                    (''timestamp'', JStr (now w))])]\<rparr>)))))))"

definition handler_multi :: "engine \<Rightarrow> world \<Rightarrow> jsval \<Rightarrow> response" where
  "handler_multi eng w reqbody =
     (case try_multi eng w reqbody of
        Inr r \<Rightarrow> r
      | Inl error \<Rightarrow>
          \<lparr>status_code = 500,
           json = JObj
             [(''error'', JStr (if message error \<noteq> [] then message error
                                else ''Failed to generate image'')),
              (''details'', stack error)]\<rparr>)"

text \<open>The three variants behind one name.\<close>

datatype variant = Echo | SingleProvider | MultiProvider

fun handler :: "variant \<Rightarrow> engine \<Rightarrow> world \<Rightarrow> jsval \<Rightarrow> response" where
  "handler Echo = handler_echo"
| "handler SingleProvider = handler_single"
| "handler MultiProvider = handler_multi"

text \<open>
  What the client reads back: \<^verbatim>\<open>res.json\<close> sends \<^verbatim>\<open>JSON.stringify\<close> of its argument,
  which leaves out a property whose value is \<^verbatim>\<open>undefined\<close> and writes \<^verbatim>\<open>null\<close> for an
  \<^verbatim>\<open>undefined\<close> array element and for a number that is not finite.
\<close>

fun to_wire :: "jsval \<Rightarrow> jsval" where
  "to_wire (JNum n) = (case n of Fin x \<Rightarrow> JNum (Fin x) | _ \<Rightarrow> JNull)"
| "to_wire (JArr xs) = JArr (map (\<lambda>x. if x = JUndefined then JNull else to_wire x) xs)"
| "to_wire (JObj kvs) =
     JObj (map (\<lambda>kv. (fst kv, to_wire (snd kv))) (filter (\<lambda>kv. snd kv \<noteq> JUndefined) kvs))"
| "to_wire v = v"

section \<open>The page (MapboxAIGenerator.tsx)\<close>

text \<open>
  \<^verbatim>\<open>canvas.toDataURL('image/png')\<close> is the browser's: a canvas without pixels gives
  \<^verbatim>\<open>data:,\<close>, any other the PNG of its bitmap in base64 behind the PNG data-URL
  prefix. \<open>Drawn b\<close> is a canvas whose PNG has the base64 text \<open>b\<close>.
\<close>

datatype canvas = Blank | Drawn string

definition toDataURL :: "canvas \<Rightarrow> string" where
  "toDataURL c = (case c of Blank \<Rightarrow> ''data:,'' | Drawn b \<Rightarrow> ''data:image/png;base64,'' @ b)"

text \<open>\<open>None\<close> is a \<^verbatim>\<open>map.current\<close> that is not set, and the \<^verbatim>\<open>null\<close> returned for it.\<close>

definition captureMapCanvas :: "canvas option \<Rightarrow> string option" where
  "captureMapCanvas m = (case m of None \<Rightarrow> None | Some c \<Rightarrow> Some (toDataURL c))"

text \<open>
  The state of the component that \<^verbatim>\<open>generateImage\<close> reads and sets. The camera
  values start as numbers and are the strings of \<^verbatim>\<open>toFixed\<close> once the map has moved.
\<close>

record page =
  lng :: jsval
  lat :: jsval
  zoom :: jsval
  pitch :: jsval
  bearing :: jsval
  loading :: bool
  generatedImage :: "string option"
  error :: "string option"

definition initial_page :: page where
  "initial_page =
     \<lparr>lng = JNum (Fin 105.8342), lat = JNum (Fin 21.0278), zoom = JNum (Fin 15),
      pitch = JNum (Fin 60), bearing = JNum (Fin 0), loading = False,
      generatedImage = None, error = None\<rparr>"

text \<open>
  The object given to \<^verbatim>\<open>JSON.stringify\<close> as the body of the request; with finite
  numbers and strings in it, the server parses the same object back.
\<close>

definition request_body :: "engine \<Rightarrow> page \<Rightarrow> string \<Rightarrow> js_error + jsval" where
  "request_body eng st mapImage =
     bind (to_number eng (pitch st)) (\<lambda>p.
     bind (to_number eng (bearing st)) (\<lambda>b.
     bind (to_number eng (zoom st)) (\<lambda>z.
     Inr (JObj [(''imageData'', JStr mapImage),
                (''pitch'', JNum p),
                (''bearing'', JNum b),
                (''zoom'', JNum z),
                (''location'', JObj [(''lat'', lat st), (''lng'', lng st)])]))))"

text \<open>
  What \<^verbatim>\<open>fetch\<close> and \<^verbatim>\<open>response.json()\<close> give: a rejection with its message, or a
  status with the parsed body (or the message of the parse error).
\<close>

datatype fetched = Failed string | Answered nat "string + jsval"

definition generateImage :: "engine \<Rightarrow> (jsval \<Rightarrow> fetched) \<Rightarrow> canvas option \<Rightarrow> page \<Rightarrow> page" where
  "generateImage eng fetch m st =
     (let st1 = st\<lparr>loading := True, error := None\<rparr>;
          caught = (\<lambda>msg. st1\<lparr>error := Some msg, loading := False\<rparr>)
      in case captureMapCanvas m of
           None \<Rightarrow> caught ''Unable to capture the map''
         | Some mapImage \<Rightarrow>
             if mapImage = [] then caught ''Unable to capture the map''
             else (case request_body eng st1 mapImage of
                     Inl e \<Rightarrow> caught (message e)
                   | Inr body \<Rightarrow>
                       (case fetch body of
                          Failed msg \<Rightarrow> caught msg
                        | Answered code parsed \<Rightarrow>
                            if \<not> (200 \<le> code \<and> code \<le> 299) then caught ''API call failed''
                            else (case parsed of
                                    Inl msg \<Rightarrow> caught msg
                                  | Inr data \<Rightarrow>
                                      st1\<lparr>generatedImage := Some mapImage, loading := False\<rparr>))))"

text \<open>The result panel: the error text, else the image, else the placeholder.\<close>

datatype panel = ErrorText string | Image string | Placeholder

definition result_panel :: "page \<Rightarrow> panel" where
  "result_panel st =
     (case error st of
        Some e \<Rightarrow> if e \<noteq> [] then ErrorText e
                  else (case generatedImage st of
                          Some src \<Rightarrow> if src \<noteq> [] then Image src else Placeholder
                        | None \<Rightarrow> Placeholder)
      | None \<Rightarrow> (case generatedImage st of
                   Some src \<Rightarrow> if src \<noteq> [] then Image src else Placeholder
                 | None \<Rightarrow> Placeholder))"

text \<open>One of the three servers answering the page's request.\<close>

definition serve :: "variant \<Rightarrow> engine \<Rightarrow> world \<Rightarrow> jsval \<Rightarrow> fetched" where
  "serve v eng w body = (let r = handler v eng w body in Answered (status_code r) (Inr (json r)))"

section \<open>Sample inputs\<close>

text \<open>
  An engine for the examples below; none of them prints a fraction into a response
  or reads a string that is not a plain decimal.
\<close>

definition sample_engine :: engine where
  "sample_engine =
     \<lparr>number_to_string = (\<lambda>x. ''?''), string_to_number = (\<lambda>s. NaN),
      stack_trace = (\<lambda>name msg. name @ '': '' @ msg)\<rparr>"

definition sample_request :: "jsval \<Rightarrow> jsval \<Rightarrow> jsval \<Rightarrow> jsval" where
  "sample_request imageData a b =
     JObj [(''imageData'', imageData), (''pitch'', JNum (Fin 60)), (''bearing'', JNum (Fin 0)),
           (''zoom'', JNum (Fin 15)), (''location'', JObj [(''lat'', a), (''lng'', b)])]"

definition sample_world :: "backend_outcome \<Rightarrow> world" where
  "sample_world out = \<lparr>now = ''2025-01-01T00:00:00.000Z'', random = 0, outcome = out\<rparr>"

definition service_down :: js_error where
  "service_down =
     \<lparr>message = ''fetch failed'', status = JNum (Fin 503), errorDetails = JUndefined,
      stack = JStr ''Error: fetch failed''\<rparr>"


section \<open>Auxiliary facts\<close>

subsection \<open>Decimal digits: printing and reading back\<close>

lemma digit_cases: "d < 10 \<Longrightarrow> d = 0 \<or> d = 1 \<or> d = 2 \<or> d = 3 \<or> d = 4 \<or> d = 5 \<or> d = 6 \<or> d = 7 \<or> d = 8 \<or> d = (9::nat)"
  by arith

lemma digit_char_props:
  assumes "d < 10"
  shows "is_digit (digit_char d)" and "digit_val (digit_char d) = d" and "digit_char d \<noteq> CHR ''.''"
    and "digit_char d \<noteq> CHR ''-''"
  using digit_cases [OF assms]
  by (auto simp: digit_char_def is_digit_def digit_val_def)

lemma show_nat_digits: "list_all is_digit (show_nat n)"
proof (induction n rule: show_nat.induct)
  case (1 n)
  show ?case
  proof (cases "n < 10")
    case True
    then show ?thesis by (simp add: show_nat.simps [of n] digit_char_props)
  next
    case False
    with 1 show ?thesis by (simp add: show_nat.simps [of n] digit_char_props)
  qed
qed

lemma show_nat_nonempty: "show_nat n \<noteq> []"
  by (simp add: show_nat.simps [of n])

lemma digits_value_snoc: "digits_value (s @ [c]) = 10 * digits_value s + digit_val c"
  by (simp add: digits_value_def)

lemma digits_value_show_nat: "digits_value (show_nat n) = n"
proof (induction n rule: show_nat.induct)
  case (1 n)
  show ?case
  proof (cases "n < 10")
    case True
    then show ?thesis by (simp add: show_nat.simps [of n] digits_value_def digit_char_props)
  next
    case False
    with 1 show ?thesis
      by (simp add: show_nat.simps [of n] digits_value_snoc digit_char_props)
  qed
qed

lemma foldl_digits_shift:
  "foldl (\<lambda>a c. 10 * a + digit_val c) k s = k * 10 ^ length s + foldl (\<lambda>a c. 10 * a + digit_val c) 0 s"
proof -
  define f where "f = (\<lambda>(a::nat) c. 10 * a + digit_val c)"
  have "foldl f k s = k * 10 ^ length s + foldl f 0 s" for k
  proof (induction s arbitrary: k)
    case Nil
    then show ?case by simp
  next
    case (Cons c s)
    have step: "f k c = 10 * k + digit_val c" "f 0 c = digit_val c"
      by (simp_all add: f_def)
    have "foldl f k (c # s) = foldl f (f k c) s" by simp
    also have "\<dots> = f k c * 10 ^ length s + foldl f 0 s" by (rule Cons.IH)
    also have "\<dots> = k * 10 ^ length (c # s) + (f 0 c * 10 ^ length s + foldl f 0 s)"
      unfolding step by (simp add: algebra_simps)
    also have "f 0 c * 10 ^ length s + foldl f 0 s = foldl f (f 0 c) s" by (rule Cons.IH [symmetric])
    also have "foldl f (f 0 c) s = foldl f 0 (c # s)" by simp
    finally show ?case .
  qed
  then show ?thesis unfolding f_def .
qed

lemma digits_value_append:
  "digits_value (a @ b) = digits_value a * 10 ^ length b + digits_value b"
  unfolding digits_value_def foldl_append
  by (rule foldl_digits_shift)

lemma digits_value_zeros: "digits_value (replicate z (CHR ''0'') @ s) = digits_value s"
  by (induction z) (simp_all add: digits_value_def digit_val_def)


lemma is_digit_not_point: "is_digit c \<Longrightarrow> c \<noteq> CHR ''.'' \<and> c \<noteq> CHR ''-''"
  by (auto simp: is_digit_def)

lemma show_nat_length: "0 < k \<Longrightarrow> n < 10 ^ k \<Longrightarrow> length (show_nat n) \<le> k"
proof (induction n arbitrary: k rule: show_nat.induct)
  case (1 n)
  show ?case
  proof (cases "n < 10")
    case True
    with 1(2) show ?thesis by (simp add: show_nat.simps [of n] Suc_leI)
  next
    case False
    then obtain j where k: "k = Suc j" "0 < j"
      using 1(2,3) by (cases k; cases "k - 1") auto
    have "n div 10 < 10 ^ j"
      using 1(3) k(1) by (simp add: less_mult_imp_div_less mult.commute)
    from 1(1) [OF False k(2) this] show ?thesis
      using False by (simp add: show_nat.simps [of n] k(1))
  qed
qed

lemma parse_unsigned_split:
  assumes a: "a \<noteq> []" "list_all is_digit a" and b: "b \<noteq> []" "list_all is_digit b"
      and short: "length a + length b \<le> 15"
  shows "parse_unsigned (a @ ''.'' @ b) =
         Some (real (digits_value a) + real (digits_value b) / 10 ^ length b)"
proof -
  have no_point: "\<And>c. c \<in> set a \<Longrightarrow> c \<noteq> CHR ''.''"
    using a(2) is_digit_not_point by (auto simp: list_all_iff)
  have tw: "takeWhile (\<lambda>c. c \<noteq> CHR ''.'') (a @ ''.'' @ b) = a"
    using no_point by (simp add: takeWhile_append2)
  have dw: "dropWhile (\<lambda>c. c \<noteq> CHR ''.'') (a @ ''.'' @ b) = ''.'' @ b"
    using no_point by (simp add: dropWhile_append2)
  show ?thesis
    unfolding parse_unsigned_def tw dw Let_def using a b short by (simp add: all_digits_def)
qed

lemma fixed_digits_split:
  assumes "0 < f" "f < 15" "n < 10 ^ 15"
  obtains a b where "fixed_digits f n = a @ ''.'' @ b" "a \<noteq> []" "list_all is_digit a"
    "length b = f" "list_all is_digit b" "digits_value a * 10 ^ f + digits_value b = n"
    "length a + length b \<le> 15"
proof -
  define m where "m = show_nat n"
  define m' where "m' = (if length m \<le> f then replicate (f + 1 - length m) (CHR ''0'') @ m else m)"
  define k where "k = length m'"
  have zero: "is_digit (CHR ''0'')" by (simp add: is_digit_def)
  have digits: "list_all is_digit m'"
    using show_nat_digits [of n] zero by (simp add: m'_def m_def list_all_iff)
  have val: "digits_value m' = n"
    by (simp add: m'_def m_def digits_value_zeros digits_value_show_nat)
  have len: "f < k"
    by (simp add: k_def m'_def)
  have fd: "fixed_digits f n = take (k - f) m' @ ''.'' @ drop (k - f) m'"
    using assms by (simp add: fixed_digits_def Let_def m_def m'_def k_def)
  have "m' = take (k - f) m' @ drop (k - f) m'" by simp
  then have "digits_value m' =
      digits_value (take (k - f) m') * 10 ^ length (drop (k - f) m') + digits_value (drop (k - f) m')"
    using digits_value_append [of "take (k - f) m'" "drop (k - f) m'"] by simp
  moreover have lb: "length (drop (k - f) m') = f" using len by (simp add: k_def)
  ultimately have sum: "digits_value (take (k - f) m') * 10 ^ f + digits_value (drop (k - f) m') = n"
    using val by simp
  have na: "take (k - f) m' \<noteq> []" using len by (auto simp: k_def)
  have da: "list_all is_digit (take (k - f) m')" and db: "list_all is_digit (drop (k - f) m')"
    using digits by (auto simp: list_all_iff dest: in_set_takeD in_set_dropD)
  have "length m \<le> 15"
    unfolding m_def using assms(3) by (intro show_nat_length) simp_all
  then have "k \<le> 15"
    using assms(2) by (simp add: k_def m'_def)
  then have short: "length (take (k - f) m') + length (drop (k - f) m') \<le> 15"
    by (simp add: k_def)
  show thesis using that [OF fd na da lb db sum short] .
qed

lemma parse_fixed_digits:
  assumes "0 < f" "f < 15" "n < 10 ^ 15"
  shows "parse_decimal (fixed_digits f n) = Some (real n / 10 ^ f)"
proof -
  obtain a b where ab: "fixed_digits f n = a @ ''.'' @ b" "a \<noteq> []" "list_all is_digit a"
    "length b = f" "list_all is_digit b" "digits_value a * 10 ^ f + digits_value b = n"
    "length a + length b \<le> 15"
    using fixed_digits_split [OF assms] by blast
  from ab(2) obtain c t where ct: "a = c # t" by (cases a) auto
  with ab(3) have "c \<noteq> CHR ''-''" using is_digit_not_point by auto
  then have "parse_decimal (fixed_digits f n) = parse_unsigned (a @ ''.'' @ b)"
    by (simp add: parse_decimal_def ab(1) ct)
  also have "\<dots> = Some (real (digits_value a) + real (digits_value b) / 10 ^ length b)"
    using ab assms by (intro parse_unsigned_split) auto
  also have "real (digits_value a) + real (digits_value b) / 10 ^ length b = real n / 10 ^ f"
  proof -
    have "real n = real (digits_value a) * 10 ^ f + real (digits_value b)"
      using ab(6) [symmetric] by simp
    then show ?thesis by (simp add: ab(4) field_simps)
  qed
  finally show ?thesis .
qed

lemma size_gate_reads_hundredths:
  assumes "0 \<le> x" "x < 10 ^ 12"
  shows "js_gt eng (JStr (toFixed eng 2 (Fin x))) 15 = Inr (1500 < nat \<lfloor>x * 100 + 1 / 2\<rfloor>)"
proof -
  define n where "n = nat \<lfloor>x * 100 + 1 / 2\<rfloor>"
  have "x < 10 ^ 21"
    using assms(2) by (rule less_trans) simp
  then have tf: "toFixed eng 2 (Fin x) = fixed_digits 2 n"
    using assms(1) by (simp add: n_def)
  have "x * 100 + 1 / 2 < 10 ^ 15"
    using assms(2) by simp
  then have "real n < 10 ^ 15"
    unfolding n_def using assms(1) by (simp add: floor_less_iff [symmetric] less_le_trans)
  then have small: "n < 10 ^ 15"
    using of_nat_less_iff [of n "10 ^ 15", where ?'a = real] by simp
  have "str_to_num eng (fixed_digits 2 n) = Fin (real n / 10 ^ 2)"
    using small by (simp add: str_to_num_def parse_fixed_digits)
  then show ?thesis
    unfolding tf js_gt_def n_def [symmetric] by (simp add: bind_def)
qed

lemma size_in_mb_string:
  "size_in_mb eng (JStr s) = Inr (toFixed eng 2 (Fin (real (length s) * 0.75 / (1024 * 1024))))"
  by (simp add: size_in_mb_def bind_def)


subsection \<open>The ways a handler returns\<close>

lemma bind_Inl [simp]: "bind (Inl e) f = Inl e"
  by (simp add: bind_def)

lemma bind_Inr [simp]: "bind (Inr x) f = f x"
  by (simp add: bind_def)

lemma bind_eq_Inr: "bind m f = Inr r \<longleftrightarrow> (\<exists>x. m = Inr x \<and> f x = Inr r)"
  by (cases m) simp_all

lemma to_string_eq_Inr: "to_string eng v = Inr s \<longleftrightarrow> stringifiable v \<and> s = js_str eng v"
  by (auto simp: to_string_def)

lemma try_echo_cases:
  assumes "try_echo eng w body = Inr r"
  obtains
    (no_image) "\<not> truthy (js_prop body ''imageData'')"
      "r = \<lparr>status_code = 400,
            json = JObj [(''error'', JStr ''No image data provided''),
                         (''received'', JArr (object_keys body))]\<rparr>"
  | (bad_location) "truthy (js_prop body ''imageData'')"
      "\<not> truthy (js_prop body ''location'')
       \<or> js_prop (js_prop body ''location'') ''lat'' = JUndefined
       \<or> js_prop (js_prop body ''location'') ''lng'' = JUndefined"
      "r = \<lparr>status_code = 400,
            json = JObj [(''error'', JStr ''Invalid location data''),
                         (''received'', js_prop body ''location'')]\<rparr>"
  | (ok) sizeInMB ds where
      "truthy (js_prop body ''imageData'')" "stringifiable (js_prop body ''imageData'')"
      "truthy (js_prop body ''location'')"
      "js_prop (js_prop body ''location'') ''lat'' \<noteq> JUndefined"
      "js_prop (js_prop body ''location'') ''lng'' \<noteq> JUndefined"
      "size_in_mb eng (js_prop body ''imageData'') = Inr sizeInMB"
      "descriptions eng (js_prop body ''location'') (js_prop body ''pitch'')
         (js_prop body ''bearing'') (js_prop body ''zoom'') = Inr ds"
      "r = \<lparr>status_code = 200,
            json = JObj
              [(''success'', JBool True),
               (''image'', JStr (data_url_prefix @ js_str eng (js_prop body ''imageData''))),
               (''description'', JStr (js_str eng (pick_random (random w) ds) @ echo_note)),
               (''metadata'', JObj
                  [(''location'', js_prop body ''location''),
                   (''camera'', metadata_camera (js_prop body ''pitch'') (js_prop body ''bearing'')
                                  (js_prop body ''zoom'')),
                   (''imageSize'', JStr (sizeInMB @ '' MB'')),
                   (''timestamp'', JStr (now w)),
                   (''note'', JStr ''No AI processing - original map returned'')])]\<rparr>"
proof -
  have typeof_undefined: "js_typeof v = ''undefined'' \<longleftrightarrow> v = JUndefined" for v
    by (cases v) simp_all
  from assms show thesis
    unfolding try_echo_def Let_def typeof_undefined
    by (auto simp: bind_eq_Inr to_string_eq_Inr split: if_splits intro: no_image bad_location ok)
qed





subsection \<open>Successful responses\<close>

lemmas eval_defs = get_prop_def cannot_read_def to_string_def js_gt_def size_in_mb_def log_request_def
  metadata_camera_def call_toFixed_def descriptions_def pick_random_def
  fixed_digits_def show_nat.simps digit_char_def str_to_num_def parse_decimal_def
  parse_unsigned_def all_digits_def is_digit_def digits_value_def digit_val_def
  type_error_def new_Error_def data_url_prefix_def
  sample_engine_def sample_world_def sample_request_def service_down_def

lemma echo_note_nonempty: "echo_note \<noteq> []"
  by (simp add: echo_note_def)

lemma failure_description_nonempty: "failure_description e \<noteq> []"
  by (simp add: failure_description_def warning_sign_def)

lemma js_prop_defined: "js_prop v k \<noteq> JUndefined \<Longrightarrow> \<not> nullish v"
  by (cases v) simp_all

lemma truthy_defined: "truthy v \<Longrightarrow> v \<noteq> JUndefined"
  by (cases v) simp_all

subsection \<open>Rejections\<close>

lemma js_typeof_undefined: "js_typeof v = ''undefined'' \<longleftrightarrow> v = JUndefined"
  by (cases v) simp_all




lemma single_rejects_location:
  assumes "truthy (js_prop body ''imageData'')"
    "\<not> truthy (js_prop body ''location'')
     \<or> \<not> truthy (js_prop (js_prop body ''location'') ''lat'')
     \<or> \<not> truthy (js_prop (js_prop body ''location'') ''lng'')"
  shows "handler_single eng w body =
           \<lparr>status_code = 400, json = JObj [(''error'', JStr ''Invalid location data'')]\<rparr>"
proof -
  have "\<not> nullish body"
    using assms(1) by (intro js_prop_defined [of body "''imageData''"] truthy_defined)
  with assms show ?thesis by (auto simp: handler_single_def try_single_def)
qed





lemma descriptions_need_numbers:
  assumes "descriptions eng loc p b z = Inr ds"
  shows "js_typeof (js_prop loc ''lat'') = ''number'' \<and> js_typeof (js_prop loc ''lng'') = ''number''"
proof -
  have number: "js_typeof v = ''number''" if "call_toFixed eng name v f = Inr s" for name v f s
    using that by (cases v) (simp_all add: call_toFixed_def get_prop_def)
  from assms show ?thesis
    unfolding descriptions_def by (auto simp: bind_eq_Inr dest: number)
qed

lemma round_half_up_close:
  assumes "0 \<le> (y::real)"
  shows "\<bar>real (nat \<lfloor>y + 1 / 2\<rfloor>) - y\<bar> \<le> 1 / 2"
proof -
  have "0 \<le> \<lfloor>y + 1 / 2\<rfloor>" using assms by simp
  then have "real (nat \<lfloor>y + 1 / 2\<rfloor>) = of_int \<lfloor>y + 1 / 2\<rfloor>" by simp
  moreover have "of_int \<lfloor>y + 1 / 2\<rfloor> \<le> y + 1 / 2" by (rule of_int_floor_le)
  moreover have "y + 1 / 2 < of_int \<lfloor>y + 1 / 2\<rfloor> + 1" by (rule real_of_int_floor_add_one_gt)
  ultimately show ?thesis by linarith
qed

text \<open>
  The gate compares the rounded string with 15: an image of 20,971,521 characters,
  estimated just above 15 MB, prints as \<^verbatim>\<open>15.00\<close> and goes on to the service.
\<close>

lemma size_gate_compares_rounded_size:
  "size_in_mb sample_engine (JStr (replicate 20971521 (CHR ''A''))) = Inr ''15.00''
   \<and> (15::real) < real 20971521 * 0.75 / (1024 * 1024)
   \<and> status_code (handler SingleProvider sample_engine (sample_world (Text ''a city''))
        (sample_request (JStr (replicate 20971521 (CHR ''A''))) (JNum (Fin 21.0278))
           (JNum (Fin 105.8342)))) = 200"
  by (simp add: handler_single_def try_single_def delegate_single_def generate_single_def
        eval_defs)

subsection \<open>Requests that are answered\<close>

text \<open>
  What each handler needs of a request to reach its \<^verbatim>\<open>res.json\<close>, and the fields of
  the response it sends then. The log lines print exactly when the five values they
  interpolate convert to strings.
\<close>

lemma to_number_of_stringifiable: "stringifiable v \<Longrightarrow> \<exists>n. to_number eng v = Inr n"
  by (cases v) (simp_all add: to_string_def)

lemma js_gt_of_stringifiable: "stringifiable v \<Longrightarrow> \<exists>b. js_gt eng v c = Inr b"
  using to_number_of_stringifiable [of v eng] by (auto simp: js_gt_def)

lemma log_request_prints:
  "log_request eng loc p b z = Inr () \<longleftrightarrow>
     stringifiable (js_prop loc ''lat'') \<and> stringifiable (js_prop loc ''lng'')
     \<and> stringifiable p \<and> stringifiable b \<and> stringifiable z"
  by (simp add: log_request_def to_string_def)

lemma number_cases: "js_typeof v = ''number'' \<Longrightarrow> \<exists>n. v = JNum n"
  by (cases v) simp_all

lemma descriptions_of_numbers:
  assumes "js_typeof (js_prop loc ''lat'') = ''number''" "js_typeof (js_prop loc ''lng'') = ''number''"
      and "stringifiable p" "stringifiable b" "stringifiable z"
  shows "\<exists>ds. descriptions eng loc p b z = Inr ds"
proof -
  obtain m n where "js_prop loc ''lat'' = JNum m" "js_prop loc ''lng'' = JNum n"
    using assms(1,2) by (auto dest!: number_cases)
  moreover obtain high where "js_gt eng p 60 = Inr high"
    using js_gt_of_stringifiable [OF assms(3)] by blast
  ultimately show ?thesis
    using assms(3-5) by (simp add: descriptions_def call_toFixed_def to_string_def)
qed

lemma echo_answers:
  assumes img: "js_prop body ''imageData'' = JStr s" "s \<noteq> []"
      and logs: "log_request eng (js_prop body ''location'') (js_prop body ''pitch'')
                   (js_prop body ''bearing'') (js_prop body ''zoom'') = Inr ()"
      and loc: "truthy (js_prop body ''location'')"
      and numbers: "js_typeof (js_prop (js_prop body ''location'') ''lat'') = ''number''"
                   "js_typeof (js_prop (js_prop body ''location'') ''lng'') = ''number''"
  obtains sizeInMB ds where
    "descriptions eng (js_prop body ''location'') (js_prop body ''pitch'')
       (js_prop body ''bearing'') (js_prop body ''zoom'') = Inr ds"
    "handler_echo eng w body =
       \<lparr>status_code = 200,
        json = JObj
          [(''success'', JBool True),
           (''image'', JStr (data_url_prefix @ s)),
           (''description'', JStr (js_str eng (pick_random (random w) ds) @ echo_note)),
           (''metadata'', JObj
              [(''location'', js_prop body ''location''),
               (''camera'', metadata_camera (js_prop body ''pitch'') (js_prop body ''bearing'')
                              (js_prop body ''zoom'')),
               (''imageSize'', JStr (sizeInMB @ '' MB'')),
               (''timestamp'', JStr (now w)),
               (''note'', JStr ''No AI processing - original map returned'')])]\<rparr>"
proof -
  have body: "\<not> nullish body"
    using img(1) by (intro js_prop_defined [of body "''imageData''"]) simp
  from logs have prints: "stringifiable (js_prop body ''pitch'')"
      "stringifiable (js_prop body ''bearing'')" "stringifiable (js_prop body ''zoom'')"
    by (simp_all add: log_request_prints)
  obtain ds where ds: "descriptions eng (js_prop body ''location'') (js_prop body ''pitch'')
       (js_prop body ''bearing'') (js_prop body ''zoom'') = Inr ds"
    using descriptions_of_numbers [OF numbers prints] by blast
  obtain sizeInMB where size: "size_in_mb eng (JStr s) = Inr sizeInMB"
    by (simp add: size_in_mb_string)
  have defined: "js_typeof (js_prop (js_prop body ''location'') ''lat'') \<noteq> ''undefined''"
      "js_typeof (js_prop (js_prop body ''location'') ''lng'') \<noteq> ''undefined''"
    using numbers by simp_all
  have "try_echo eng w body = Inr
       \<lparr>status_code = 200,
        json = JObj
          [(''success'', JBool True),
           (''image'', JStr (data_url_prefix @ s)),
           (''description'', JStr (js_str eng (pick_random (random w) ds) @ echo_note)),
           (''metadata'', JObj
              [(''location'', js_prop body ''location''),
               (''camera'', metadata_camera (js_prop body ''pitch'') (js_prop body ''bearing'')
                              (js_prop body ''zoom'')),
               (''imageSize'', JStr (sizeInMB @ '' MB'')),
               (''timestamp'', JStr (now w)),
               (''note'', JStr ''No AI processing - original map returned'')])]\<rparr>"
    using body img loc defined logs ds size by (simp add: try_echo_def to_string_def)
  then have "handler_echo eng w body =
       \<lparr>status_code = 200,
        json = JObj
          [(''success'', JBool True),
           (''image'', JStr (data_url_prefix @ s)),
           (''description'', JStr (js_str eng (pick_random (random w) ds) @ echo_note)),
           (''metadata'', JObj
              [(''location'', js_prop body ''location''),
               (''camera'', metadata_camera (js_prop body ''pitch'') (js_prop body ''bearing'')
                              (js_prop body ''zoom'')),
               (''imageSize'', JStr (sizeInMB @ '' MB'')),
               (''timestamp'', JStr (now w)),
               (''note'', JStr ''No AI processing - original map returned'')])]\<rparr>"
    by (simp add: handler_echo_def)
  with ds show thesis by (rule that)
qed

lemma single_delegates:
  assumes img: "js_prop body ''imageData'' = JStr s" "s \<noteq> []"
      and logs: "log_request eng (js_prop body ''location'') (js_prop body ''pitch'')
                   (js_prop body ''bearing'') (js_prop body ''zoom'') = Inr ()"
      and loc: "truthy (js_prop body ''location'')"
               "truthy (js_prop (js_prop body ''location'') ''lat'')"
               "truthy (js_prop (js_prop body ''location'') ''lng'')"
      and gate: "bind (size_in_mb eng (JStr s)) (\<lambda>sizeInMB. js_gt eng (JStr sizeInMB) 15) = Inr False"
  obtains sizeInMB where
    "try_single eng w body =
       delegate_single eng w (JStr s) (js_prop body ''pitch'') (js_prop body ''bearing'')
         (js_prop body ''zoom'') (js_prop body ''location'') sizeInMB"
proof -
  have body: "\<not> nullish body"
    using img(1) by (intro js_prop_defined [of body "''imageData''"]) simp
  from gate obtain sizeInMB where size: "size_in_mb eng (JStr s) = Inr sizeInMB"
      "js_gt eng (JStr sizeInMB) 15 = Inr False"
    by (auto simp: bind_eq_Inr)
  have "try_single eng w body =
       delegate_single eng w (JStr s) (js_prop body ''pitch'') (js_prop body ''bearing'')
         (js_prop body ''zoom'') (js_prop body ''location'') sizeInMB"
    using body img loc size logs by (simp add: try_single_def)
  then show thesis by (rule that)
qed

lemma single_answers:
  assumes img: "js_prop body ''imageData'' = JStr s" "s \<noteq> []"
      and logs: "log_request eng (js_prop body ''location'') (js_prop body ''pitch'')
                   (js_prop body ''bearing'') (js_prop body ''zoom'') = Inr ()"
      and loc: "truthy (js_prop body ''location'')"
               "truthy (js_prop (js_prop body ''location'') ''lat'')"
               "truthy (js_prop (js_prop body ''location'') ''lng'')"
      and gate: "bind (size_in_mb eng (JStr s)) (\<lambda>sizeInMB. js_gt eng (JStr sizeInMB) 15) = Inr False"
      and details: "\<forall>e. generate_single eng (outcome w) = Inl e \<longrightarrow>
                      log_error_details (errorDetails e) = None"
  obtains
    (success) sizeInMB description where "outcome w = Text description"
      "handler_single eng w body =
         \<lparr>status_code = 200,
          json = JObj
            [(''success'', JBool True),
             (''image'', JStr (data_url_prefix @ s)),
             (''description'', JStr description),
             (''metadata'', JObj
                [(''location'', js_prop body ''location''),
                 (''camera'', metadata_camera (js_prop body ''pitch'') (js_prop body ''bearing'')
                                (js_prop body ''zoom'')),
                 (''imageSize'', JStr (sizeInMB @ '' MB'')),
                 (''model'', JStr ''gemini-1.5-flash''),
                 (''timestamp'', JStr (now w))])]\<rparr>"
  | (failure) geminiError where "generate_single eng (outcome w) = Inl geminiError"
      "handler_single eng w body =
         \<lparr>status_code = 200,
          json = JObj
            [(''success'', JBool False),
             (''image'', JStr (data_url_prefix @ s)),
             (''description'', JStr (failure_description geminiError)),
             (''error'', JObj
                [(''message'', JStr (message geminiError)),
                 (''status'', status geminiError),
                 (''details'', errorDetails geminiError)]),
             (''metadata'', JObj
                [(''location'', js_prop body ''location''),
                 (''camera'', metadata_camera (js_prop body ''pitch'') (js_prop body ''bearing'')
                                (js_prop body ''zoom'')),
                 (''timestamp'', JStr (now w))])]\<rparr>"
proof -
  obtain sizeInMB where delegated: "try_single eng w body =
       delegate_single eng w (JStr s) (js_prop body ''pitch'') (js_prop body ''bearing'')
         (js_prop body ''zoom'') (js_prop body ''location'') sizeInMB"
    using single_delegates [OF img logs loc gate] by blast
  show thesis
  proof (cases "generate_single eng (outcome w)")
    case (Inl geminiError)
    with details have "log_error_details (errorDetails geminiError) = None" by simp
    with Inl show thesis
      by (intro failure [of geminiError])
         (simp_all add: handler_single_def delegated delegate_single_def to_string_def)
  next
    case (Inr description)
    then have text_out: "outcome w = Text description"
      by (cases "outcome w") (simp_all add: generate_single_def)
    from Inr show thesis
      by (intro success [of description sizeInMB] text_out)
         (simp add: handler_single_def delegated delegate_single_def to_string_def)
  qed
qed

lemma multi_answers:
  assumes img: "js_prop body ''imageData'' = JStr s" "s \<noteq> []"
      and logs: "log_request eng (js_prop body ''location'') (js_prop body ''pitch'')
                   (js_prop body ''bearing'') (js_prop body ''zoom'') = Inr ()"
      and loc: "\<not> nullish (js_prop body ''location'')"
      and answer: "outcome w = Text description"
  shows "handler_multi eng w body =
         \<lparr>status_code = 200,
          json = JObj
            [(''success'', JBool True),
             (''image'', JStr (data_url_prefix @ s)),
             (''description'', JStr description),
             (''metadata'', JObj
                [(''location'', js_prop body ''location''),
                 (''camera'', metadata_camera (js_prop body ''pitch'') (js_prop body ''bearing'')
                                (js_prop body ''zoom'')),
                 (''timestamp'', JStr (now w))])]\<rparr>"
proof -
  have body: "\<not> nullish body"
    using img(1) by (intro js_prop_defined [of body "''imageData''"]) simp
  from logs have prints: "stringifiable (js_prop body ''pitch'')"
      "stringifiable (js_prop (js_prop body ''location'') ''lat'')"
    by (simp_all add: log_request_prints)
  obtain aerial north where compares: "js_gt eng (js_prop body ''pitch'') 45 = Inr aerial"
      "js_gt eng (js_prop (js_prop body ''location'') ''lat'') 0 = Inr north"
    using js_gt_of_stringifiable [OF prints(1)] js_gt_of_stringifiable [OF prints(2)] by blast
  show ?thesis
    using body img loc logs compares answer
    by (simp add: handler_multi_def try_multi_def get_prop_def generate_multi_def to_string_def)
qed


lemma generate_single_text: "generate_single eng (Text d) = Inr d"
  by (simp add: generate_single_def)

lemma echo_fields:
  assumes img: "js_prop body ''imageData'' = JStr s" "s \<noteq> []"
      and logs: "log_request eng (js_prop body ''location'') (js_prop body ''pitch'')
                   (js_prop body ''bearing'') (js_prop body ''zoom'') = Inr ()"
      and loc: "truthy (js_prop body ''location'')"
      and numbers: "js_typeof (js_prop (js_prop body ''location'') ''lat'') = ''number''"
                   "js_typeof (js_prop (js_prop body ''location'') ''lng'') = ''number''"
  shows "status_code (handler Echo eng w body) = 200
    \<and> js_prop (json (handler Echo eng w body)) ''image'' = JStr (''data:image/png;base64,'' @ s)
    \<and> js_prop (js_prop (json (handler Echo eng w body)) ''metadata'') ''timestamp'' = JStr (now w)
    \<and> (\<exists>ds. descriptions eng (js_prop body ''location'') (js_prop body ''pitch'')
               (js_prop body ''bearing'') (js_prop body ''zoom'') = Inr ds
             \<and> js_prop (json (handler Echo eng w body)) ''description''
                 = JStr (js_str eng (pick_random (random w) ds) @ echo_note))
    \<and> js_prop (js_prop (json (handler Echo eng w body)) ''metadata'') ''camera''
         = JObj [(''pitch'', js_prop body ''pitch''), (''bearing'', js_prop body ''bearing''),
                 (''zoom'', js_prop body ''zoom'')]
    \<and> js_prop (js_prop (to_wire (json (handler Echo eng w body))) ''metadata'') ''camera''
         = to_wire (JObj [(''pitch'', js_prop body ''pitch''), (''bearing'', js_prop body ''bearing''),
                          (''zoom'', js_prop body ''zoom'')])"
proof (rule echo_answers [OF img logs loc numbers, of w])
  fix sizeInMB ds
  assume ds: "descriptions eng (js_prop body ''location'') (js_prop body ''pitch'')
       (js_prop body ''bearing'') (js_prop body ''zoom'') = Inr ds"
    and r: "handler_echo eng w body =
       \<lparr>status_code = 200,
        json = JObj
          [(''success'', JBool True),
           (''image'', JStr (data_url_prefix @ s)),
           (''description'', JStr (js_str eng (pick_random (random w) ds) @ echo_note)),
           (''metadata'', JObj
              [(''location'', js_prop body ''location''),
               (''camera'', metadata_camera (js_prop body ''pitch'') (js_prop body ''bearing'')
                              (js_prop body ''zoom'')),
               (''imageSize'', JStr (sizeInMB @ '' MB'')),
               (''timestamp'', JStr (now w)),
               (''note'', JStr ''No AI processing - original map returned'')])]\<rparr>"
  have "js_prop body ''location'' \<noteq> JUndefined"
    using loc by (rule truthy_defined)
  then show ?thesis
    by (simp add: r ds data_url_prefix_def metadata_camera_def)
qed

lemma single_fields:
  assumes img: "js_prop body ''imageData'' = JStr s" "s \<noteq> []"
      and logs: "log_request eng (js_prop body ''location'') (js_prop body ''pitch'')
                   (js_prop body ''bearing'') (js_prop body ''zoom'') = Inr ()"
      and loc: "truthy (js_prop body ''location'')"
               "truthy (js_prop (js_prop body ''location'') ''lat'')"
               "truthy (js_prop (js_prop body ''location'') ''lng'')"
      and gate: "bind (size_in_mb eng (JStr s)) (\<lambda>sizeInMB. js_gt eng (JStr sizeInMB) 15) = Inr False"
      and details: "\<forall>e. generate_single eng (outcome w) = Inl e \<longrightarrow>
                      log_error_details (errorDetails e) = None"
  shows "status_code (handler SingleProvider eng w body) = 200
    \<and> js_prop (json (handler SingleProvider eng w body)) ''image''
        = JStr (''data:image/png;base64,'' @ s)
    \<and> js_prop (js_prop (json (handler SingleProvider eng w body)) ''metadata'') ''timestamp''
        = JStr (now w)
    \<and> (\<forall>d. outcome w = Text d \<longrightarrow>
           js_prop (json (handler SingleProvider eng w body)) ''description'' = JStr d)
    \<and> (\<forall>e. generate_single eng (outcome w) = Inl e \<longrightarrow>
           js_prop (json (handler SingleProvider eng w body)) ''description''
           = JStr (failure_description e))
    \<and> js_prop (js_prop (json (handler SingleProvider eng w body)) ''metadata'') ''camera''
         = JObj [(''pitch'', js_prop body ''pitch''), (''bearing'', js_prop body ''bearing''),
                 (''zoom'', js_prop body ''zoom'')]
    \<and> js_prop (js_prop (to_wire (json (handler SingleProvider eng w body))) ''metadata'') ''camera''
         = to_wire (JObj [(''pitch'', js_prop body ''pitch''), (''bearing'', js_prop body ''bearing''),
                          (''zoom'', js_prop body ''zoom'')])"
proof -
  have defined: "js_prop body ''location'' \<noteq> JUndefined"
    using loc(1) by (rule truthy_defined)
  from img logs loc gate details show ?thesis
  proof (cases rule: single_answers)
    case (success sizeInMB description)
    with defined show ?thesis
      by (simp add: generate_single_text data_url_prefix_def metadata_camera_def)
  next
    case (failure geminiError)
    then have "\<forall>d. outcome w \<noteq> Text d"
      by (auto simp: generate_single_text)
    with failure defined show ?thesis
      by (simp add: data_url_prefix_def metadata_camera_def)
  qed
qed

lemma multi_fields:
  assumes img: "js_prop body ''imageData'' = JStr s" "s \<noteq> []"
      and logs: "log_request eng (js_prop body ''location'') (js_prop body ''pitch'')
                   (js_prop body ''bearing'') (js_prop body ''zoom'') = Inr ()"
      and loc: "\<not> nullish (js_prop body ''location'')"
      and answer: "outcome w = Text d"
  shows "status_code (handler MultiProvider eng w body) = 200
    \<and> js_prop (json (handler MultiProvider eng w body)) ''image''
        = JStr (''data:image/png;base64,'' @ s)
    \<and> js_prop (js_prop (json (handler MultiProvider eng w body)) ''metadata'') ''timestamp''
        = JStr (now w)
    \<and> js_prop (json (handler MultiProvider eng w body)) ''description'' = JStr d
    \<and> js_prop (js_prop (json (handler MultiProvider eng w body)) ''metadata'') ''camera''
         = JObj [(''pitch'', js_prop body ''pitch''), (''bearing'', js_prop body ''bearing''),
                 (''zoom'', js_prop body ''zoom'')]
    \<and> js_prop (js_prop (to_wire (json (handler MultiProvider eng w body))) ''metadata'') ''camera''
         = to_wire (JObj [(''pitch'', js_prop body ''pitch''), (''bearing'', js_prop body ''bearing''),
                          (''zoom'', js_prop body ''zoom'')])"
proof -
  have "js_prop body ''location'' \<noteq> JUndefined"
    using loc by (cases "js_prop body ''location''") simp_all
  with multi_answers [OF img logs loc answer] show ?thesis
    by (simp add: data_url_prefix_def metadata_camera_def)
qed

section \<open>The claims\<close>

text \<open>
  \<^bold>\<open>C1\<close>, as the single-provider server behaves. For a request with a non-empty
  image string that passes the location check and the size gate and whose
  coordinates and camera values print in the log lines: when the one call to the
  generation service fails with an error whose \<^verbatim>\<open>errorDetails\<close> the catch block can
  log, the response is 200 with \<^verbatim>\<open>success: false\<close>, the image re-wrapped as a PNG data
  URL, and a description that carries the message of the error.
\<close>

theorem backend_failure_degrades_gracefully:
  assumes img: "js_prop body ''imageData'' = JStr s" "s \<noteq> []"
      and loc: "truthy (js_prop body ''location'')"
               "truthy (js_prop (js_prop body ''location'') ''lat'')"
               "truthy (js_prop (js_prop body ''location'') ''lng'')"
      and gate: "size_in_mb eng (JStr s) = Inr sizeInMB" "js_gt eng (JStr sizeInMB) 15 = Inr False"
      and logs: "log_request eng (js_prop body ''location'') (js_prop body ''pitch'')
                   (js_prop body ''bearing'') (js_prop body ''zoom'') = Inr ()"
      and fails: "generate_single eng (outcome w) = Inl geminiError"
      and details: "log_error_details (errorDetails geminiError) = None"
  shows "handler SingleProvider eng w body =
           \<lparr>status_code = 200,
            json = JObj
              [(''success'', JBool False),
               (''image'', JStr (''data:image/png;base64,'' @ s)),
               (''description'', JStr (warning_sign @ '' AI generation failed: '' @
                   message geminiError @ ''\<newline>\<newline>Returning original map image.'')),
               (''error'', JObj
                  [(''message'', JStr (message geminiError)),
                   (''status'', status geminiError),
                   (''details'', errorDetails geminiError)]),
               (''metadata'', JObj
                  [(''location'', js_prop body ''location''),
                   (''camera'', JObj [(''pitch'', js_prop body ''pitch''),
                                      (''bearing'', js_prop body ''bearing''),
                                      (''zoom'', js_prop body ''zoom'')]),
                   (''timestamp'', JStr (now w))])]\<rparr>"
    (is "_ = ?graceful")
proof -
  have body: "\<not> nullish body"
    using img(1) by (intro js_prop_defined [of body "''imageData''"]) simp
  have "delegate_single eng w (JStr s) (js_prop body ''pitch'') (js_prop body ''bearing'')
          (js_prop body ''zoom'') (js_prop body ''location'') sizeInMB = Inr ?graceful"
    by (simp add: delegate_single_def fails details to_string_def failure_description_def
          data_url_prefix_def metadata_camera_def)
  then have "try_single eng w body = Inr ?graceful"
    using body img loc gate logs by (simp add: try_single_def)
  then show ?thesis by (simp add: handler_single_def)
qed

text \<open>The request and the failure of the witness, step by step.\<close>

theorem backend_failure_degrades_gracefully_witness:
  "handler SingleProvider sample_engine (sample_world (Rejects service_down))
      (sample_request (JStr ''iVBORw0KGgo='') (JNum (Fin 21.0278)) (JNum (Fin 105.8342))) =
   \<lparr>status_code = 200,
    json = JObj
      [(''success'', JBool False),
       (''image'', JStr ''data:image/png;base64,iVBORw0KGgo=''),
       (''description'', JStr (warning_sign @
           '' AI generation failed: fetch failed\<newline>\<newline>Returning original map image.'')),
       (''error'', JObj
          [(''message'', JStr ''fetch failed''), (''status'', JNum (Fin 503)),
           (''details'', JUndefined)]),
       (''metadata'', JObj
          [(''location'', JObj [(''lat'', JNum (Fin 21.0278)), (''lng'', JNum (Fin 105.8342))]),
           (''camera'', JObj [(''pitch'', JNum (Fin 60)), (''bearing'', JNum (Fin 0)),
                              (''zoom'', JNum (Fin 15))]),
           (''timestamp'', JStr ''2025-01-01T00:00:00.000Z'')])]\<rparr>"
proof -
  let ?body = "sample_request (JStr ''iVBORw0KGgo='') (JNum (Fin 21.0278)) (JNum (Fin 105.8342))"
  let ?w = "sample_world (Rejects service_down)"
  have img: "js_prop ?body ''imageData'' = JStr ''iVBORw0KGgo=''" "''iVBORw0KGgo='' \<noteq> []"
    by (simp_all add: sample_request_def)
  have loc: "truthy (js_prop ?body ''location'')"
      "truthy (js_prop (js_prop ?body ''location'') ''lat'')"
      "truthy (js_prop (js_prop ?body ''location'') ''lng'')"
    by (simp_all add: sample_request_def)
  have size: "size_in_mb sample_engine (JStr ''iVBORw0KGgo='') = Inr ''0.00''"
    by (simp add: eval_defs)
  have gate: "js_gt sample_engine (JStr ''0.00'') 15 = Inr False"
    by (simp add: eval_defs)
  have logs: "log_request sample_engine (js_prop ?body ''location'') (js_prop ?body ''pitch'')
                (js_prop ?body ''bearing'') (js_prop ?body ''zoom'') = Inr ()"
    by (simp add: eval_defs)
  have fails: "generate_single sample_engine (outcome ?w) = Inl service_down"
    by (simp add: generate_single_def sample_world_def)
  have details: "log_error_details (errorDetails service_down) = None"
    by (simp add: log_error_details_def service_down_def)
  from backend_failure_degrades_gracefully [OF img loc size gate logs fails details]
  show ?thesis
    by (simp add: sample_request_def sample_world_def service_down_def)
qed

text \<open>
  The multi-provider server has a single \<^verbatim>\<open>catch\<close>: the same failure of the service
  there ends in a 500.
\<close>

theorem backend_failure_counterexample:
  "handler MultiProvider sample_engine (sample_world (Rejects service_down))
      (sample_request (JStr ''iVBORw0KGgo='') (JNum (Fin 21.0278)) (JNum (Fin 105.8342))) =
   \<lparr>status_code = 500,
    json = JObj [(''error'', JStr ''fetch failed''), (''details'', JStr ''Error: fetch failed'')]\<rparr>"
  by (simp add: handler_multi_def try_multi_def generate_multi_def eval_defs)

text \<open>
  \<^bold>\<open>C2\<close>, as the three servers behave. For a request with a non-empty image
  string whose coordinates and camera values print in the log lines, the response is
  a 200 whose \<^verbatim>\<open>image\<close> is the PNG data-URL prefix followed by that string, unchanged:
  in the echo server when \<^verbatim>\<open>location\<close> is truthy and both coordinates are numbers;
  in the single-provider server when the location check and the size gate pass,
  whether the generation service answers or fails (with \<^verbatim>\<open>errorDetails\<close> the catch
  block can log); in the multi-provider server when \<^verbatim>\<open>location\<close> is not \<^verbatim>\<open>null\<close> or
  \<^verbatim>\<open>undefined\<close> and the service answers with a text.
\<close>

theorem image_passthrough:
  assumes img: "js_prop body ''imageData'' = JStr s" "s \<noteq> []"
      and logs: "log_request eng (js_prop body ''location'') (js_prop body ''pitch'')
                   (js_prop body ''bearing'') (js_prop body ''zoom'') = Inr ()"
  shows "(truthy (js_prop body ''location'')
          \<and> js_typeof (js_prop (js_prop body ''location'') ''lat'') = ''number''
          \<and> js_typeof (js_prop (js_prop body ''location'') ''lng'') = ''number''
          \<longrightarrow> status_code (handler Echo eng w body) = 200
              \<and> js_prop (json (handler Echo eng w body)) ''image''
                  = JStr (''data:image/png;base64,'' @ s))
       \<and> (truthy (js_prop body ''location'')
          \<and> truthy (js_prop (js_prop body ''location'') ''lat'')
          \<and> truthy (js_prop (js_prop body ''location'') ''lng'')
          \<and> bind (size_in_mb eng (JStr s)) (\<lambda>sizeInMB. js_gt eng (JStr sizeInMB) 15) = Inr False
          \<and> (\<forall>e. generate_single eng (outcome w) = Inl e
                  \<longrightarrow> log_error_details (errorDetails e) = None)
          \<longrightarrow> status_code (handler SingleProvider eng w body) = 200
              \<and> js_prop (json (handler SingleProvider eng w body)) ''image''
                  = JStr (''data:image/png;base64,'' @ s))
       \<and> (\<not> nullish (js_prop body ''location'') \<and> (\<exists>d. outcome w = Text d)
          \<longrightarrow> status_code (handler MultiProvider eng w body) = 200
              \<and> js_prop (json (handler MultiProvider eng w body)) ''image''
                  = JStr (''data:image/png;base64,'' @ s))"
proof (intro conjI impI)
  assume echo: "truthy (js_prop body ''location'')
          \<and> js_typeof (js_prop (js_prop body ''location'') ''lat'') = ''number''
          \<and> js_typeof (js_prop (js_prop body ''location'') ''lng'') = ''number''"
  then have "truthy (js_prop body ''location'')"
    "js_typeof (js_prop (js_prop body ''location'') ''lat'') = ''number''"
    "js_typeof (js_prop (js_prop body ''location'') ''lng'') = ''number''"
    by simp_all
  from echo_fields [OF img logs this, of w]
  show "status_code (handler Echo eng w body) = 200"
    and "js_prop (json (handler Echo eng w body)) ''image'' = JStr (''data:image/png;base64,'' @ s)"
    by (rule conjunct1, rule conjunct2 [THEN conjunct1])
next
  assume single: "truthy (js_prop body ''location'')
          \<and> truthy (js_prop (js_prop body ''location'') ''lat'')
          \<and> truthy (js_prop (js_prop body ''location'') ''lng'')
          \<and> bind (size_in_mb eng (JStr s)) (\<lambda>sizeInMB. js_gt eng (JStr sizeInMB) 15) = Inr False
          \<and> (\<forall>e. generate_single eng (outcome w) = Inl e
                  \<longrightarrow> log_error_details (errorDetails e) = None)"
  then have "truthy (js_prop body ''location'')"
    "truthy (js_prop (js_prop body ''location'') ''lat'')"
    "truthy (js_prop (js_prop body ''location'') ''lng'')"
    "bind (size_in_mb eng (JStr s)) (\<lambda>sizeInMB. js_gt eng (JStr sizeInMB) 15) = Inr False"
    "\<forall>e. generate_single eng (outcome w) = Inl e \<longrightarrow> log_error_details (errorDetails e) = None"
    by simp_all
  from single_fields [OF img logs this]
  show "status_code (handler SingleProvider eng w body) = 200"
    and "js_prop (json (handler SingleProvider eng w body)) ''image''
           = JStr (''data:image/png;base64,'' @ s)"
    by (rule conjunct1, rule conjunct2 [THEN conjunct1])
next
  assume multi: "\<not> nullish (js_prop body ''location'') \<and> (\<exists>d. outcome w = Text d)"
  then obtain d where "\<not> nullish (js_prop body ''location'')" "outcome w = Text d"
    by blast
  from multi_fields [OF img logs this]
  show "status_code (handler MultiProvider eng w body) = 200"
    and "js_prop (json (handler MultiProvider eng w body)) ''image''
           = JStr (''data:image/png;base64,'' @ s)"
    by (rule conjunct1, rule conjunct2 [THEN conjunct1])
qed

text \<open>
  The sample request against the three servers with the service answering, and
  against the single-provider server with the service down.
\<close>

theorem image_passthrough_witness:
  "status_code (handler Echo sample_engine (sample_world (Text ''a city''))
      (sample_request (JStr ''iVBORw0KGgo='') (JNum (Fin 21.0278)) (JNum (Fin 105.8342)))) = 200
   \<and> js_prop (json (handler Echo sample_engine (sample_world (Text ''a city''))
      (sample_request (JStr ''iVBORw0KGgo='') (JNum (Fin 21.0278)) (JNum (Fin 105.8342))))) ''image''
      = JStr ''data:image/png;base64,iVBORw0KGgo=''
   \<and> status_code (handler SingleProvider sample_engine (sample_world (Text ''a city''))
      (sample_request (JStr ''iVBORw0KGgo='') (JNum (Fin 21.0278)) (JNum (Fin 105.8342)))) = 200
   \<and> js_prop (json (handler SingleProvider sample_engine (sample_world (Text ''a city''))
      (sample_request (JStr ''iVBORw0KGgo='') (JNum (Fin 21.0278)) (JNum (Fin 105.8342))))) ''image''
      = JStr ''data:image/png;base64,iVBORw0KGgo=''
   \<and> status_code (handler SingleProvider sample_engine (sample_world (Rejects service_down))
      (sample_request (JStr ''iVBORw0KGgo='') (JNum (Fin 21.0278)) (JNum (Fin 105.8342)))) = 200
   \<and> js_prop (json (handler SingleProvider sample_engine (sample_world (Rejects service_down))
      (sample_request (JStr ''iVBORw0KGgo='') (JNum (Fin 21.0278)) (JNum (Fin 105.8342))))) ''image''
      = JStr ''data:image/png;base64,iVBORw0KGgo=''
   \<and> status_code (handler MultiProvider sample_engine (sample_world (Text ''a city''))
      (sample_request (JStr ''iVBORw0KGgo='') (JNum (Fin 21.0278)) (JNum (Fin 105.8342)))) = 200
   \<and> js_prop (json (handler MultiProvider sample_engine (sample_world (Text ''a city''))
      (sample_request (JStr ''iVBORw0KGgo='') (JNum (Fin 21.0278)) (JNum (Fin 105.8342))))) ''image''
      = JStr ''data:image/png;base64,iVBORw0KGgo=''"
proof -
  let ?body = "sample_request (JStr ''iVBORw0KGgo='') (JNum (Fin 21.0278)) (JNum (Fin 105.8342))"
  let ?answers = "sample_world (Text ''a city'')"
  let ?fails = "sample_world (Rejects service_down)"
  have img: "js_prop ?body ''imageData'' = JStr ''iVBORw0KGgo=''" "''iVBORw0KGgo='' \<noteq> []"
    by (simp_all add: sample_request_def)
  have logs: "log_request sample_engine (js_prop ?body ''location'') (js_prop ?body ''pitch'')
                (js_prop ?body ''bearing'') (js_prop ?body ''zoom'') = Inr ()"
    by (simp add: eval_defs)
  have echo: "truthy (js_prop ?body ''location'')
      \<and> js_typeof (js_prop (js_prop ?body ''location'') ''lat'') = ''number''
      \<and> js_typeof (js_prop (js_prop ?body ''location'') ''lng'') = ''number''"
    by (simp add: sample_request_def)
  have single: "truthy (js_prop ?body ''location'')
      \<and> truthy (js_prop (js_prop ?body ''location'') ''lat'')
      \<and> truthy (js_prop (js_prop ?body ''location'') ''lng'')
      \<and> bind (size_in_mb sample_engine (JStr ''iVBORw0KGgo=''))
           (\<lambda>sizeInMB. js_gt sample_engine (JStr sizeInMB) 15) = Inr False"
    by (simp add: eval_defs)
  have details: "\<forall>e. generate_single sample_engine (outcome ?answers) = Inl e
        \<longrightarrow> log_error_details (errorDetails e) = None"
      "\<forall>e. generate_single sample_engine (outcome ?fails) = Inl e
        \<longrightarrow> log_error_details (errorDetails e) = None"
    by (auto simp: generate_single_def sample_world_def log_error_details_def service_down_def)
  have multi: "\<not> nullish (js_prop ?body ''location'') \<and> (\<exists>d. outcome ?answers = Text d)"
    by (simp add: sample_request_def sample_world_def)
  from image_passthrough [OF img logs, of ?answers] image_passthrough [OF img logs, of ?fails]
    echo single details multi
  show ?thesis
    by simp
qed

text \<open>
  Two requests that pass validation and end in a 500 without an image: the sample
  request in the multi-provider server with the service down, and coordinates sent
  as strings in the echo server.
\<close>

theorem image_passthrough_counterexample:
  "status_code (handler MultiProvider sample_engine (sample_world (Rejects service_down))
     (sample_request (JStr ''iVBORw0KGgo='') (JNum (Fin 21.0278)) (JNum (Fin 105.8342)))) = 500
   \<and> js_prop (json (handler MultiProvider sample_engine (sample_world (Rejects service_down))
     (sample_request (JStr ''iVBORw0KGgo='') (JNum (Fin 21.0278)) (JNum (Fin 105.8342))))) ''image''
     = JUndefined
   \<and> status_code (handler Echo sample_engine (sample_world (Text ''a city''))
     (sample_request (JStr ''iVBORw0KGgo='') (JStr ''21.0278'') (JStr ''105.8342''))) = 500
   \<and> js_prop (json (handler Echo sample_engine (sample_world (Text ''a city''))
     (sample_request (JStr ''iVBORw0KGgo='') (JStr ''21.0278'') (JStr ''105.8342'')))) ''image''
     = JUndefined"
  by (simp add: handler_multi_def try_multi_def generate_multi_def
        handler_echo_def try_echo_def eval_defs)




text \<open>
  \<^bold>\<open>C4\<close>, as the single-provider server behaves. For an image string within the
  50 MB body limit and a location that passes the check, let \<open>n\<close> be the size
  \<open>length * 0.75 / 2\<^sup>2\<^sup>0\<close> in hundredths of a MB, rounded half up. When \<open>n\<close>
  exceeds 1500 the response is 400 with the fields \<^verbatim>\<open>error\<close>, \<^verbatim>\<open>size\<close> and \<^verbatim>\<open>limit\<close>;
  \<^verbatim>\<open>size\<close> is the decimal with two places that reads back as \<open>n / 100\<close>, within
  half a hundredth of the size.
\<close>

theorem size_gate_rejects_large_images:
  assumes img: "js_prop body ''imageData'' = JStr s"
      and limit: "length s \<le> 52428800"
      and loc: "truthy (js_prop body ''location'')"
               "truthy (js_prop (js_prop body ''location'') ''lat'')"
               "truthy (js_prop (js_prop body ''location'') ''lng'')"
      and n: "n = nat \<lfloor>real (length s) * 0.75 / (1024 * 1024) * 100 + 1 / 2\<rfloor>"
      and big: "1500 < n"
  shows "handler SingleProvider eng w body =
           \<lparr>status_code = 400,
            json = JObj
              [(''error'', JStr ''Image too large. Please zoom out or reduce resolution.''),
               (''size'', JStr (fixed_digits 2 n @ '' MB'')),
               (''limit'', JStr ''15 MB'')]\<rparr>
         \<and> parse_decimal (fixed_digits 2 n) = Some (real n / 100)
         \<and> \<bar>real n / 100 - real (length s) * 0.75 / (1024 * 1024)\<bar> \<le> 1 / 200"
proof -
  define x where "x = real (length s) * 0.75 / (1024 * 1024)"
  have x0: "0 \<le> x" by (simp add: x_def)
  have "real (length s) \<le> 52428800" using limit by simp
  then have x38: "x < 38" by (simp add: x_def)
  then have x1: "x < 10 ^ 21" and x2: "x < 10 ^ 12" by simp_all
  have nx: "n = nat \<lfloor>x * 100 + 1 / 2\<rfloor>" by (simp add: n x_def)
  have "x * 100 + 1 / 2 < 3801" using x38 by simp
  then have "\<lfloor>x * 100 + 1 / 2\<rfloor> < 3801" by linarith
  then have "n < 3801" unfolding nx by linarith
  then have small: "n < 10 ^ 15" by simp
  have "s \<noteq> []" using big n by auto
  then have image: "truthy (js_prop body ''imageData'')" by (simp add: img)
  have body: "\<not> nullish body"
    using img by (intro js_prop_defined [of body "''imageData''"]) simp
  have fixed: "toFixed eng 2 (Fin x) = fixed_digits 2 n"
    using x0 x1 by (simp add: nx)
  have size: "size_in_mb eng (JStr s) = Inr (fixed_digits 2 n)"
    unfolding fixed [symmetric] by (simp add: size_in_mb_string x_def)
  have gate: "js_gt eng (JStr (fixed_digits 2 n)) 15 = Inr True"
    unfolding fixed [symmetric]
    using size_gate_reads_hundredths [OF x0 x2, of eng] big by (simp only: nx)
  have "try_single eng w body =
          Inr \<lparr>status_code = 400,
               json = JObj
                 [(''error'', JStr ''Image too large. Please zoom out or reduce resolution.''),
                  (''size'', JStr (fixed_digits 2 n @ '' MB'')),
                  (''limit'', JStr ''15 MB'')]\<rparr>"
    using body image loc by (simp add: try_single_def img size gate)
  then have response: "handler SingleProvider eng w body =
           \<lparr>status_code = 400,
            json = JObj
              [(''error'', JStr ''Image too large. Please zoom out or reduce resolution.''),
               (''size'', JStr (fixed_digits 2 n @ '' MB'')),
               (''limit'', JStr ''15 MB'')]\<rparr>"
    by (simp add: handler_single_def)
  have reads: "parse_decimal (fixed_digits 2 n) = Some (real n / 100)"
    using parse_fixed_digits [of 2 n] small by simp
  have "0 \<le> x * 100" using x0 by simp
  from round_half_up_close [OF this] have "\<bar>real n - x * 100\<bar> \<le> 1 / 2"
    by (simp add: nx)
  then have close: "\<bar>real n / 100 - x\<bar> \<le> 1 / 200" by (simp add: abs_le_iff field_simps)
  from response reads close show ?thesis by (simp add: x_def)
qed

text \<open>An image of 22,000,000 characters: 15.74 MB.\<close>

theorem size_gate_rejects_large_images_witness:
  "handler SingleProvider sample_engine (sample_world (Text ''a city''))
      (sample_request (JStr (replicate 22000000 (CHR ''A''))) (JNum (Fin 21.0278)) (JNum (Fin 105.8342))) =
   \<lparr>status_code = 400,
    json = JObj
      [(''error'', JStr ''Image too large. Please zoom out or reduce resolution.''),
       (''size'', JStr ''15.74 MB''),
       (''limit'', JStr ''15 MB'')]\<rparr>"
proof -
  let ?s = "replicate 22000000 (CHR ''A'')"
  let ?body = "sample_request (JStr ?s) (JNum (Fin 21.0278)) (JNum (Fin 105.8342))"
  have img: "js_prop ?body ''imageData'' = JStr ?s"
    by (simp add: sample_request_def)
  have limit: "length ?s \<le> 52428800" by simp
  have loc: "truthy (js_prop ?body ''location'')"
      "truthy (js_prop (js_prop ?body ''location'') ''lat'')"
      "truthy (js_prop (js_prop ?body ''location'') ''lng'')"
    by (simp_all add: sample_request_def)
  have n: "(1574::nat) = nat \<lfloor>real (length ?s) * 0.75 / (1024 * 1024) * 100 + 1 / 2\<rfloor>"
    by simp
  have big: "1500 < (1574::nat)" by simp
  have digits: "fixed_digits 2 1574 = ''15.74''"
    by (simp add: fixed_digits_def show_nat.simps digit_char_def)
  from size_gate_rejects_large_images [OF img limit loc n big, of sample_engine
      "sample_world (Text ''a city'')"]
  show ?thesis by (simp add: digits)
qed

text \<open>
  The echo server computes the same size for that image, reports it in the metadata
  and answers 200: it has no size gate.
\<close>

theorem size_gate_counterexample:
  "status_code (handler Echo sample_engine (sample_world NoResult)
      (sample_request (JStr (replicate 22000000 (CHR ''A''))) (JNum (Fin 21.0278)) (JNum (Fin 105.8342))))
     = 200
   \<and> js_prop (js_prop (json (handler Echo sample_engine (sample_world NoResult)
      (sample_request (JStr (replicate 22000000 (CHR ''A''))) (JNum (Fin 21.0278)) (JNum (Fin 105.8342)))))
        ''metadata'') ''imageSize'' = JStr ''15.74 MB''"
  by (simp add: handler_echo_def try_echo_def eval_defs)

text \<open>
  \<^bold>\<open>C5\<close>, as the three servers behave. For a request with a non-empty image
  string whose coordinates and camera values print in the log lines, the response is
  a 200 with the time read from the clock as \<^verbatim>\<open>metadata.timestamp\<close> and a string as
  \<^verbatim>\<open>description\<close>. In the echo server (\<^verbatim>\<open>location\<close> truthy, both coordinates numbers)
  the string is the template picked at random followed by the note of the server,
  and is not empty. In the single-provider server (location check and size gate
  passed) it is the text of the generation service, as it is, when the service
  answers, and the failure message, which is not empty, when the service fails with
  \<^verbatim>\<open>errorDetails\<close> the catch block can log. In the multi-provider server (\<^verbatim>\<open>location\<close>
  not \<^verbatim>\<open>null\<close> or \<^verbatim>\<open>undefined\<close>) it is the text of the service, as it is, when the
  service answers.
\<close>

theorem description_and_timestamp:
  assumes img: "js_prop body ''imageData'' = JStr s" "s \<noteq> []"
      and logs: "log_request eng (js_prop body ''location'') (js_prop body ''pitch'')
                   (js_prop body ''bearing'') (js_prop body ''zoom'') = Inr ()"
  shows "(truthy (js_prop body ''location'')
          \<and> js_typeof (js_prop (js_prop body ''location'') ''lat'') = ''number''
          \<and> js_typeof (js_prop (js_prop body ''location'') ''lng'') = ''number''
          \<longrightarrow> status_code (handler Echo eng w body) = 200
              \<and> js_prop (js_prop (json (handler Echo eng w body)) ''metadata'') ''timestamp''
                  = JStr (now w)
              \<and> (\<exists>ds. descriptions eng (js_prop body ''location'') (js_prop body ''pitch'')
                         (js_prop body ''bearing'') (js_prop body ''zoom'') = Inr ds
                       \<and> js_prop (json (handler Echo eng w body)) ''description''
                           = JStr (js_str eng (pick_random (random w) ds) @ echo_note))
              \<and> (\<exists>t. js_prop (json (handler Echo eng w body)) ''description'' = JStr t \<and> t \<noteq> []))
       \<and> (truthy (js_prop body ''location'')
          \<and> truthy (js_prop (js_prop body ''location'') ''lat'')
          \<and> truthy (js_prop (js_prop body ''location'') ''lng'')
          \<and> bind (size_in_mb eng (JStr s)) (\<lambda>sizeInMB. js_gt eng (JStr sizeInMB) 15) = Inr False
          \<longrightarrow> (outcome w = Text d
                \<longrightarrow> status_code (handler SingleProvider eng w body) = 200
                    \<and> js_prop (js_prop (json (handler SingleProvider eng w body)) ''metadata'')
                        ''timestamp'' = JStr (now w)
                    \<and> js_prop (json (handler SingleProvider eng w body)) ''description'' = JStr d)
              \<and> (generate_single eng (outcome w) = Inl e
                  \<and> log_error_details (errorDetails e) = None
                \<longrightarrow> status_code (handler SingleProvider eng w body) = 200
                    \<and> js_prop (js_prop (json (handler SingleProvider eng w body)) ''metadata'')
                        ''timestamp'' = JStr (now w)
                    \<and> js_prop (json (handler SingleProvider eng w body)) ''description''
                        = JStr (failure_description e)
                    \<and> failure_description e \<noteq> []))
       \<and> (\<not> nullish (js_prop body ''location'') \<and> outcome w = Text d
          \<longrightarrow> status_code (handler MultiProvider eng w body) = 200
              \<and> js_prop (js_prop (json (handler MultiProvider eng w body)) ''metadata'') ''timestamp''
                  = JStr (now w)
              \<and> js_prop (json (handler MultiProvider eng w body)) ''description'' = JStr d)"
    (is "(?echo \<longrightarrow> ?E) \<and> (?single \<longrightarrow> (?text \<longrightarrow> ?S) \<and> (?fails \<longrightarrow> ?F)) \<and> (?multi \<longrightarrow> ?M)")
proof -
  have "?E" if "?echo"
  proof -
    from that have "truthy (js_prop body ''location'')"
      "js_typeof (js_prop (js_prop body ''location'') ''lat'') = ''number''"
      "js_typeof (js_prop (js_prop body ''location'') ''lng'') = ''number''"
      by simp_all
    from echo_fields [OF img logs this, of w] show ?thesis
      by (auto simp: echo_note_nonempty)
  qed
  moreover have "?S" if "?single" "?text"
  proof -
    from that(1) have loc: "truthy (js_prop body ''location'')"
      "truthy (js_prop (js_prop body ''location'') ''lat'')"
      "truthy (js_prop (js_prop body ''location'') ''lng'')"
      and gate: "bind (size_in_mb eng (JStr s)) (\<lambda>sizeInMB. js_gt eng (JStr sizeInMB) 15) = Inr False"
      by simp_all
    from that(2) have "\<forall>e. generate_single eng (outcome w) = Inl e \<longrightarrow>
        log_error_details (errorDetails e) = None"
      by (simp add: generate_single_def)
    from single_fields [OF img logs loc gate this] that(2) show ?thesis
      by simp
  qed
  moreover have "?F" if "?single" "?fails"
  proof -
    from that(1) have loc: "truthy (js_prop body ''location'')"
      "truthy (js_prop (js_prop body ''location'') ''lat'')"
      "truthy (js_prop (js_prop body ''location'') ''lng'')"
      and gate: "bind (size_in_mb eng (JStr s)) (\<lambda>sizeInMB. js_gt eng (JStr sizeInMB) 15) = Inr False"
      by simp_all
    from that(2) have "\<forall>e. generate_single eng (outcome w) = Inl e \<longrightarrow>
        log_error_details (errorDetails e) = None"
      by simp
    from single_fields [OF img logs loc gate this] that(2) show ?thesis
      by (simp add: failure_description_nonempty)
  qed
  moreover have "?M" if "?multi"
  proof -
    from that have "\<not> nullish (js_prop body ''location'')" "outcome w = Text d"
      by simp_all
    from multi_fields [OF img logs this] show ?thesis
      by simp
  qed
  ultimately show ?thesis
    by blast
qed

text \<open>
  The sample request against the three servers with the service answering
  \<^verbatim>\<open>a city\<close>, and against the single-provider server with the service down.
\<close>

theorem description_and_timestamp_witness:
  "status_code (handler Echo sample_engine (sample_world (Text ''a city''))
      (sample_request (JStr ''iVBORw0KGgo='') (JNum (Fin 21.0278)) (JNum (Fin 105.8342)))) = 200
   \<and> js_prop (js_prop (json (handler Echo sample_engine (sample_world (Text ''a city''))
      (sample_request (JStr ''iVBORw0KGgo='') (JNum (Fin 21.0278)) (JNum (Fin 105.8342)))))
      ''metadata'') ''timestamp'' = JStr ''2025-01-01T00:00:00.000Z''
   \<and> js_prop (json (handler Echo sample_engine (sample_world (Text ''a city''))
      (sample_request (JStr ''iVBORw0KGgo='') (JNum (Fin 21.0278)) (JNum (Fin 105.8342)))))
      ''description'' \<noteq> JStr []
   \<and> status_code (handler SingleProvider sample_engine (sample_world (Text ''a city''))
      (sample_request (JStr ''iVBORw0KGgo='') (JNum (Fin 21.0278)) (JNum (Fin 105.8342)))) = 200
   \<and> js_prop (js_prop (json (handler SingleProvider sample_engine (sample_world (Text ''a city''))
      (sample_request (JStr ''iVBORw0KGgo='') (JNum (Fin 21.0278)) (JNum (Fin 105.8342)))))
      ''metadata'') ''timestamp'' = JStr ''2025-01-01T00:00:00.000Z''
   \<and> js_prop (json (handler SingleProvider sample_engine (sample_world (Text ''a city''))
      (sample_request (JStr ''iVBORw0KGgo='') (JNum (Fin 21.0278)) (JNum (Fin 105.8342)))))
      ''description'' = JStr ''a city''
   \<and> status_code (handler SingleProvider sample_engine (sample_world (Rejects service_down))
      (sample_request (JStr ''iVBORw0KGgo='') (JNum (Fin 21.0278)) (JNum (Fin 105.8342)))) = 200
   \<and> js_prop (js_prop (json (handler SingleProvider sample_engine (sample_world (Rejects service_down))
      (sample_request (JStr ''iVBORw0KGgo='') (JNum (Fin 21.0278)) (JNum (Fin 105.8342)))))
      ''metadata'') ''timestamp'' = JStr ''2025-01-01T00:00:00.000Z''
   \<and> js_prop (json (handler SingleProvider sample_engine (sample_world (Rejects service_down))
      (sample_request (JStr ''iVBORw0KGgo='') (JNum (Fin 21.0278)) (JNum (Fin 105.8342)))))
      ''description''
      = JStr (warning_sign @ '' AI generation failed: fetch failed\<newline>\<newline>Returning original map image.'')
   \<and> status_code (handler MultiProvider sample_engine (sample_world (Text ''a city''))
      (sample_request (JStr ''iVBORw0KGgo='') (JNum (Fin 21.0278)) (JNum (Fin 105.8342)))) = 200
   \<and> js_prop (js_prop (json (handler MultiProvider sample_engine (sample_world (Text ''a city''))
      (sample_request (JStr ''iVBORw0KGgo='') (JNum (Fin 21.0278)) (JNum (Fin 105.8342)))))
      ''metadata'') ''timestamp'' = JStr ''2025-01-01T00:00:00.000Z''
   \<and> js_prop (json (handler MultiProvider sample_engine (sample_world (Text ''a city''))
      (sample_request (JStr ''iVBORw0KGgo='') (JNum (Fin 21.0278)) (JNum (Fin 105.8342)))))
      ''description'' = JStr ''a city''"
proof -
  let ?body = "sample_request (JStr ''iVBORw0KGgo='') (JNum (Fin 21.0278)) (JNum (Fin 105.8342))"
  let ?answers = "sample_world (Text ''a city'')"
  let ?fails = "sample_world (Rejects service_down)"
  have img: "js_prop ?body ''imageData'' = JStr ''iVBORw0KGgo=''" "''iVBORw0KGgo='' \<noteq> []"
    by (simp_all add: sample_request_def)
  have logs: "log_request sample_engine (js_prop ?body ''location'') (js_prop ?body ''pitch'')
                (js_prop ?body ''bearing'') (js_prop ?body ''zoom'') = Inr ()"
    by (simp add: eval_defs)
  have echo: "truthy (js_prop ?body ''location'')
      \<and> js_typeof (js_prop (js_prop ?body ''location'') ''lat'') = ''number''
      \<and> js_typeof (js_prop (js_prop ?body ''location'') ''lng'') = ''number''"
    by (simp add: sample_request_def)
  have single: "truthy (js_prop ?body ''location'')
      \<and> truthy (js_prop (js_prop ?body ''location'') ''lat'')
      \<and> truthy (js_prop (js_prop ?body ''location'') ''lng'')
      \<and> bind (size_in_mb sample_engine (JStr ''iVBORw0KGgo=''))
           (\<lambda>sizeInMB. js_gt sample_engine (JStr sizeInMB) 15) = Inr False"
    by (simp add: eval_defs)
  have multi: "\<not> nullish (js_prop ?body ''location'')"
    by (simp add: sample_request_def)
  have world: "outcome ?answers = Text ''a city''" "now ?answers = ''2025-01-01T00:00:00.000Z''"
      "now ?fails = ''2025-01-01T00:00:00.000Z''"
    by (simp_all add: sample_world_def)
  have failure: "generate_single sample_engine (outcome ?fails) = Inl service_down
      \<and> log_error_details (errorDetails service_down) = None"
    by (simp add: generate_single_def sample_world_def log_error_details_def service_down_def)
  have text_of_failure: "failure_description service_down
      = warning_sign @ '' AI generation failed: fetch failed\<newline>\<newline>Returning original map image.''"
    by (simp add: failure_description_def service_down_def)
  from description_and_timestamp [OF img logs, of ?answers "''a city''" service_down]
    description_and_timestamp [OF img logs, of ?fails "''a city''" service_down]
    echo single multi world failure text_of_failure
  show ?thesis
    by auto
qed

text \<open>
  The service answers with the empty text: the single-provider server sends a 200
  with an empty description. The service is down: the multi-provider server sends a
  500 with neither description nor timestamp.
\<close>

theorem description_nonempty_counterexample:
  "status_code (handler SingleProvider sample_engine (sample_world (Text []))
      (sample_request (JStr ''iVBORw0KGgo='') (JNum (Fin 21.0278)) (JNum (Fin 105.8342)))) = 200
   \<and> js_prop (json (handler SingleProvider sample_engine (sample_world (Text []))
      (sample_request (JStr ''iVBORw0KGgo='') (JNum (Fin 21.0278)) (JNum (Fin 105.8342))))) ''description''
      = JStr []
   \<and> status_code (handler MultiProvider sample_engine (sample_world (Rejects service_down))
      (sample_request (JStr ''iVBORw0KGgo='') (JNum (Fin 21.0278)) (JNum (Fin 105.8342)))) = 500
   \<and> js_prop (json (handler MultiProvider sample_engine (sample_world (Rejects service_down))
      (sample_request (JStr ''iVBORw0KGgo='') (JNum (Fin 21.0278)) (JNum (Fin 105.8342))))) ''description''
      = JUndefined
   \<and> js_prop (js_prop (json (handler MultiProvider sample_engine (sample_world (Rejects service_down))
      (sample_request (JStr ''iVBORw0KGgo='') (JNum (Fin 21.0278)) (JNum (Fin 105.8342)))))
      ''metadata'') ''timestamp'' = JUndefined"
  by (simp add: handler_single_def try_single_def delegate_single_def generate_single_def
        handler_multi_def try_multi_def generate_multi_def eval_defs)

text \<open>
  \<^bold>\<open>C6\<close>, as the three servers behave. For a request with a non-empty image
  string whose coordinates and camera values print in the log lines, the response is
  a 200 whose \<^verbatim>\<open>metadata.camera\<close> holds the \<^verbatim>\<open>pitch\<close>, \<^verbatim>\<open>bearing\<close> and \<^verbatim>\<open>zoom\<close> of the
  request as they were received, with no conversion, both in the object handed to
  \<^verbatim>\<open>res.json\<close> and, up to what \<^verbatim>\<open>JSON.stringify\<close> does to any value, in what the client
  reads back: in the echo server when \<^verbatim>\<open>location\<close> is truthy and both coordinates are
  numbers; in the single-provider server when the location check and the size gate
  pass (and the catch block can log the \<^verbatim>\<open>errorDetails\<close> of a failure); in the
  multi-provider server when \<^verbatim>\<open>location\<close> is not \<^verbatim>\<open>null\<close> or \<^verbatim>\<open>undefined\<close> and the
  service answers with a text.
\<close>

theorem camera_mirrors_request:
  assumes img: "js_prop body ''imageData'' = JStr s" "s \<noteq> []"
      and logs: "log_request eng (js_prop body ''location'') (js_prop body ''pitch'')
                   (js_prop body ''bearing'') (js_prop body ''zoom'') = Inr ()"
  shows "(truthy (js_prop body ''location'')
          \<and> js_typeof (js_prop (js_prop body ''location'') ''lat'') = ''number''
          \<and> js_typeof (js_prop (js_prop body ''location'') ''lng'') = ''number''
          \<longrightarrow> status_code (handler Echo eng w body) = 200
              \<and> js_prop (js_prop (json (handler Echo eng w body)) ''metadata'') ''camera''
                  = JObj [(''pitch'', js_prop body ''pitch''), (''bearing'', js_prop body ''bearing''),
                          (''zoom'', js_prop body ''zoom'')]
              \<and> js_prop (js_prop (to_wire (json (handler Echo eng w body))) ''metadata'') ''camera''
                  = to_wire (JObj [(''pitch'', js_prop body ''pitch''),
                                   (''bearing'', js_prop body ''bearing''),
                                   (''zoom'', js_prop body ''zoom'')]))
       \<and> (truthy (js_prop body ''location'')
          \<and> truthy (js_prop (js_prop body ''location'') ''lat'')
          \<and> truthy (js_prop (js_prop body ''location'') ''lng'')
          \<and> bind (size_in_mb eng (JStr s)) (\<lambda>sizeInMB. js_gt eng (JStr sizeInMB) 15) = Inr False
          \<and> (\<forall>e. generate_single eng (outcome w) = Inl e
                  \<longrightarrow> log_error_details (errorDetails e) = None)
          \<longrightarrow> status_code (handler SingleProvider eng w body) = 200
              \<and> js_prop (js_prop (json (handler SingleProvider eng w body)) ''metadata'') ''camera''
                  = JObj [(''pitch'', js_prop body ''pitch''), (''bearing'', js_prop body ''bearing''),
                          (''zoom'', js_prop body ''zoom'')]
              \<and> js_prop (js_prop (to_wire (json (handler SingleProvider eng w body))) ''metadata'')
                  ''camera''
                  = to_wire (JObj [(''pitch'', js_prop body ''pitch''),
                                   (''bearing'', js_prop body ''bearing''),
                                   (''zoom'', js_prop body ''zoom'')]))
       \<and> (\<not> nullish (js_prop body ''location'') \<and> (\<exists>d. outcome w = Text d)
          \<longrightarrow> status_code (handler MultiProvider eng w body) = 200
              \<and> js_prop (js_prop (json (handler MultiProvider eng w body)) ''metadata'') ''camera''
                  = JObj [(''pitch'', js_prop body ''pitch''), (''bearing'', js_prop body ''bearing''),
                          (''zoom'', js_prop body ''zoom'')]
              \<and> js_prop (js_prop (to_wire (json (handler MultiProvider eng w body))) ''metadata'')
                  ''camera''
                  = to_wire (JObj [(''pitch'', js_prop body ''pitch''),
                                   (''bearing'', js_prop body ''bearing''),
                                   (''zoom'', js_prop body ''zoom'')]))"
    (is "(?echo \<longrightarrow> ?E) \<and> (?single \<longrightarrow> ?S) \<and> (?multi \<longrightarrow> ?M)")
proof -
  have "?E" if "?echo"
  proof -
    from that have "truthy (js_prop body ''location'')"
      "js_typeof (js_prop (js_prop body ''location'') ''lat'') = ''number''"
      "js_typeof (js_prop (js_prop body ''location'') ''lng'') = ''number''"
      by simp_all
    from echo_fields [OF img logs this, of w] show ?thesis
      by blast
  qed
  moreover have "?S" if "?single"
  proof -
    from that have "truthy (js_prop body ''location'')"
      "truthy (js_prop (js_prop body ''location'') ''lat'')"
      "truthy (js_prop (js_prop body ''location'') ''lng'')"
      "bind (size_in_mb eng (JStr s)) (\<lambda>sizeInMB. js_gt eng (JStr sizeInMB) 15) = Inr False"
      "\<forall>e. generate_single eng (outcome w) = Inl e \<longrightarrow> log_error_details (errorDetails e) = None"
      by simp_all
    from single_fields [OF img logs this] show ?thesis
      by blast
  qed
  moreover have "?M" if "?multi"
  proof -
    from that obtain d where "\<not> nullish (js_prop body ''location'')" "outcome w = Text d"
      by blast
    from multi_fields [OF img logs this] show ?thesis
      by blast
  qed
  ultimately show ?thesis
    by blast
qed

text \<open>The sample request against the three servers: the camera the client reads back.\<close>

theorem camera_mirrors_request_witness:
  "status_code (handler Echo sample_engine (sample_world (Text ''a city''))
      (sample_request (JStr ''iVBORw0KGgo='') (JNum (Fin 21.0278)) (JNum (Fin 105.8342)))) = 200
   \<and> js_prop (js_prop (to_wire (json (handler Echo sample_engine (sample_world (Text ''a city''))
      (sample_request (JStr ''iVBORw0KGgo='') (JNum (Fin 21.0278)) (JNum (Fin 105.8342))))))
      ''metadata'') ''camera''
      = JObj [(''pitch'', JNum (Fin 60)), (''bearing'', JNum (Fin 0)), (''zoom'', JNum (Fin 15))]
   \<and> status_code (handler SingleProvider sample_engine (sample_world (Text ''a city''))
      (sample_request (JStr ''iVBORw0KGgo='') (JNum (Fin 21.0278)) (JNum (Fin 105.8342)))) = 200
   \<and> js_prop (js_prop (to_wire (json (handler SingleProvider sample_engine
      (sample_world (Text ''a city''))
      (sample_request (JStr ''iVBORw0KGgo='') (JNum (Fin 21.0278)) (JNum (Fin 105.8342))))))
      ''metadata'') ''camera''
      = JObj [(''pitch'', JNum (Fin 60)), (''bearing'', JNum (Fin 0)), (''zoom'', JNum (Fin 15))]
   \<and> status_code (handler MultiProvider sample_engine (sample_world (Text ''a city''))
      (sample_request (JStr ''iVBORw0KGgo='') (JNum (Fin 21.0278)) (JNum (Fin 105.8342)))) = 200
   \<and> js_prop (js_prop (to_wire (json (handler MultiProvider sample_engine
      (sample_world (Text ''a city''))
      (sample_request (JStr ''iVBORw0KGgo='') (JNum (Fin 21.0278)) (JNum (Fin 105.8342))))))
      ''metadata'') ''camera''
      = JObj [(''pitch'', JNum (Fin 60)), (''bearing'', JNum (Fin 0)), (''zoom'', JNum (Fin 15))]"
proof -
  let ?body = "sample_request (JStr ''iVBORw0KGgo='') (JNum (Fin 21.0278)) (JNum (Fin 105.8342))"
  let ?w = "sample_world (Text ''a city'')"
  have img: "js_prop ?body ''imageData'' = JStr ''iVBORw0KGgo=''" "''iVBORw0KGgo='' \<noteq> []"
    by (simp_all add: sample_request_def)
  have logs: "log_request sample_engine (js_prop ?body ''location'') (js_prop ?body ''pitch'')
                (js_prop ?body ''bearing'') (js_prop ?body ''zoom'') = Inr ()"
    by (simp add: eval_defs)
  have echo: "truthy (js_prop ?body ''location'')
      \<and> js_typeof (js_prop (js_prop ?body ''location'') ''lat'') = ''number''
      \<and> js_typeof (js_prop (js_prop ?body ''location'') ''lng'') = ''number''"
    by (simp add: sample_request_def)
  have single: "truthy (js_prop ?body ''location'')
      \<and> truthy (js_prop (js_prop ?body ''location'') ''lat'')
      \<and> truthy (js_prop (js_prop ?body ''location'') ''lng'')
      \<and> bind (size_in_mb sample_engine (JStr ''iVBORw0KGgo=''))
           (\<lambda>sizeInMB. js_gt sample_engine (JStr sizeInMB) 15) = Inr False
      \<and> (\<forall>e. generate_single sample_engine (outcome ?w) = Inl e
              \<longrightarrow> log_error_details (errorDetails e) = None)"
    by (simp add: generate_single_def eval_defs)
  have multi: "\<not> nullish (js_prop ?body ''location'') \<and> (\<exists>d. outcome ?w = Text d)"
    by (simp add: sample_request_def sample_world_def)
  have camera: "js_prop ?body ''pitch'' = JNum (Fin 60)" "js_prop ?body ''bearing'' = JNum (Fin 0)"
      "js_prop ?body ''zoom'' = JNum (Fin 15)"
    by (simp_all add: sample_request_def)
  from camera_mirrors_request [OF img logs, of ?w] echo single multi camera show ?thesis
    by simp
qed

text \<open>
  A request whose \<^verbatim>\<open>pitch\<close> is the string \<^verbatim>\<open>"60"\<close>: the response holds the string,
  not the number that \<^verbatim>\<open>Number("60")\<close> would be. And the sample request in the
  multi-provider server with the service down: a 500 without \<^verbatim>\<open>metadata\<close>.
\<close>

theorem camera_coercion_counterexample:
  "status_code (handler SingleProvider sample_engine (sample_world (Text ''a city''))
      (JObj [(''imageData'', JStr ''iVBORw0KGgo=''), (''pitch'', JStr ''60''),
             (''bearing'', JNum (Fin 0)), (''zoom'', JNum (Fin 15)),
             (''location'', JObj [(''lat'', JNum (Fin 21.0278)), (''lng'', JNum (Fin 105.8342))])])) = 200
   \<and> js_prop (js_prop (js_prop (json (handler SingleProvider sample_engine (sample_world (Text ''a city''))
      (JObj [(''imageData'', JStr ''iVBORw0KGgo=''), (''pitch'', JStr ''60''),
             (''bearing'', JNum (Fin 0)), (''zoom'', JNum (Fin 15)),
             (''location'', JObj [(''lat'', JNum (Fin 21.0278)), (''lng'', JNum (Fin 105.8342))])])))
        ''metadata'') ''camera'') ''pitch'' = JStr ''60''
   \<and> to_number sample_engine (JStr ''60'') = Inr (Fin 60)
   \<and> status_code (handler MultiProvider sample_engine (sample_world (Rejects service_down))
      (sample_request (JStr ''iVBORw0KGgo='') (JNum (Fin 21.0278)) (JNum (Fin 105.8342)))) = 500
   \<and> js_prop (json (handler MultiProvider sample_engine (sample_world (Rejects service_down))
      (sample_request (JStr ''iVBORw0KGgo='') (JNum (Fin 21.0278)) (JNum (Fin 105.8342)))))
      ''metadata'' = JUndefined"
  by (simp add: handler_single_def try_single_def delegate_single_def generate_single_def
        handler_multi_def try_multi_def generate_multi_def eval_defs)

text \<open>
  \<^bold>\<open>C7\<close>, evaluated on the page's first request. The \<^verbatim>\<open>imageData\<close> it sends is
  the whole data URL of the canvas, prefix included, and the single-provider server
  wraps it in the prefix a second time.
\<close>

theorem frontend_sends_data_url:
  "captureMapCanvas (Some (Drawn ''iVBORw0KGgo='')) = Some ''data:image/png;base64,iVBORw0KGgo=''
   \<and> request_body sample_engine (initial_page\<lparr>loading := True, error := None\<rparr>)
         ''data:image/png;base64,iVBORw0KGgo='' =
       Inr (JObj [(''imageData'', JStr ''data:image/png;base64,iVBORw0KGgo=''),
                  (''pitch'', JNum (Fin 60)), (''bearing'', JNum (Fin 0)),
                  (''zoom'', JNum (Fin 15)),
                  (''location'', JObj [(''lat'', JNum (Fin 21.0278)),
                                       (''lng'', JNum (Fin 105.8342))])])
   \<and> js_prop (json (handler SingleProvider sample_engine (sample_world (Text ''a city''))
         (JObj [(''imageData'', JStr ''data:image/png;base64,iVBORw0KGgo=''),
                (''pitch'', JNum (Fin 60)), (''bearing'', JNum (Fin 0)),
                (''zoom'', JNum (Fin 15)),
                (''location'', JObj [(''lat'', JNum (Fin 21.0278)),
                                     (''lng'', JNum (Fin 105.8342))])]))) ''image'' =
       JStr ''data:image/png;base64,data:image/png;base64,iVBORw0KGgo=''"
  by (simp add: captureMapCanvas_def toDataURL_def request_body_def initial_page_def
        handler_single_def try_single_def delegate_single_def generate_single_def eval_defs)

text \<open>
  \<^bold>\<open>C8\<close>, as the page behaves. After a round trip that succeeds (the canvas is
  captured, the request is built, the server answers with a 2xx status and a body
  that parses), the result panel shows the captured data URL itself, whatever the
  response holds.
\<close>

theorem result_panel_shows_capture:
  assumes capture: "captureMapCanvas m = Some mapImage" "mapImage \<noteq> []"
      and request: "request_body eng (st\<lparr>loading := True, error := None\<rparr>) mapImage = Inr req"
      and answer: "fetch req = Answered code (Inr data)" "200 \<le> code" "code \<le> 299"
  shows "generateImage eng fetch m st =
           st\<lparr>loading := False, error := None, generatedImage := Some mapImage\<rparr>
         \<and> result_panel (generateImage eng fetch m st) = Image mapImage"
  using assms by (simp add: generateImage_def result_panel_def)

text \<open>The page on its initial state against the echo server.\<close>

theorem result_panel_shows_capture_witness:
  "result_panel (generateImage sample_engine
      (serve Echo sample_engine (sample_world NoResult))
      (Some (Drawn ''iVBORw0KGgo='')) initial_page) = Image ''data:image/png;base64,iVBORw0KGgo=''"
proof -
  let ?req = "JObj [(''imageData'', JStr ''data:image/png;base64,iVBORw0KGgo=''),
                  (''pitch'', JNum (Fin 60)), (''bearing'', JNum (Fin 0)),
                  (''zoom'', JNum (Fin 15)),
                  (''location'', JObj [(''lat'', JNum (Fin 21.0278)),
                                       (''lng'', JNum (Fin 105.8342))])]"
  have capture: "captureMapCanvas (Some (Drawn ''iVBORw0KGgo='')) =
      Some ''data:image/png;base64,iVBORw0KGgo=''" "''data:image/png;base64,iVBORw0KGgo='' \<noteq> []"
    by (simp_all add: captureMapCanvas_def toDataURL_def)
  have request: "request_body sample_engine (initial_page\<lparr>loading := True, error := None\<rparr>)
      ''data:image/png;base64,iVBORw0KGgo='' = Inr ?req"
    by (simp add: request_body_def initial_page_def)
  have status: "status_code (handler Echo sample_engine (sample_world NoResult) ?req) = 200"
    by (simp add: handler_echo_def try_echo_def eval_defs)
  then have answer: "serve Echo sample_engine (sample_world NoResult) ?req =
      Answered 200 (Inr (json (handler Echo sample_engine (sample_world NoResult) ?req)))"
    by (simp add: serve_def Let_def)
  from result_panel_shows_capture
         [where fetch = "serve Echo sample_engine (sample_world NoResult)",
          OF capture request answer]
  show ?thesis by (rule conjunct2) simp_all
qed

text \<open>
  Against the single-provider server, the image in the panel is not the \<^verbatim>\<open>image\<close> of
  the response, and the description of the response is nowhere in the panel.
\<close>

theorem result_panel_counterexample:
  "result_panel (generateImage sample_engine
      (serve SingleProvider sample_engine (sample_world (Text ''a city'')))
      (Some (Drawn ''iVBORw0KGgo='')) initial_page) = Image ''data:image/png;base64,iVBORw0KGgo=''
   \<and> serve SingleProvider sample_engine (sample_world (Text ''a city''))
        (JObj [(''imageData'', JStr ''data:image/png;base64,iVBORw0KGgo=''),
               (''pitch'', JNum (Fin 60)), (''bearing'', JNum (Fin 0)),
               (''zoom'', JNum (Fin 15)),
               (''location'', JObj [(''lat'', JNum (Fin 21.0278)),
                                    (''lng'', JNum (Fin 105.8342))])]) =
       Answered 200 (Inr (JObj
         [(''success'', JBool True),
          (''image'', JStr ''data:image/png;base64,data:image/png;base64,iVBORw0KGgo=''),
          (''description'', JStr ''a city''),
          (''metadata'', JObj
             [(''location'', JObj [(''lat'', JNum (Fin 21.0278)), (''lng'', JNum (Fin 105.8342))]),
              (''camera'', JObj [(''pitch'', JNum (Fin 60)), (''bearing'', JNum (Fin 0)),
                                 (''zoom'', JNum (Fin 15))]),
              (''imageSize'', JStr ''0.00 MB''),
              (''model'', JStr ''gemini-1.5-flash''),
              (''timestamp'', JStr ''2025-01-01T00:00:00.000Z'')])]))"
  by (simp add: generateImage_def result_panel_def captureMapCanvas_def toDataURL_def
        request_body_def initial_page_def serve_def
        handler_single_def try_single_def delegate_single_def generate_single_def eval_defs)

text \<open>
  \<^bold>\<open>C9\<close>. In the single-provider server a request that carries an image and
  whose \<^verbatim>\<open>location.lat\<close> or \<^verbatim>\<open>location.lng\<close> is the number 0 is rejected with 400 and
  the message \<^verbatim>\<open>Invalid location data\<close>: the check \<^verbatim>\<open>!location.lat || !location.lng\<close>
  reads the coordinates for truthiness, and 0 is falsy.
\<close>

theorem zero_coordinate_rejected:
  assumes "truthy (js_prop body ''imageData'')"
      and "js_prop (js_prop body ''location'') ''lat'' = JNum (Fin 0)
           \<or> js_prop (js_prop body ''location'') ''lng'' = JNum (Fin 0)"
  shows "handler SingleProvider eng w body =
           \<lparr>status_code = 400, json = JObj [(''error'', JStr ''Invalid location data'')]\<rparr>"
  using assms by (auto simp: single_rejects_location)

text \<open>A point on the equator.\<close>

theorem zero_coordinate_rejected_witness:
  "handler SingleProvider sample_engine (sample_world (Text ''a city''))
      (sample_request (JStr ''iVBORw0KGgo='') (JNum (Fin 0)) (JNum (Fin 105.8342))) =
   \<lparr>status_code = 400, json = JObj [(''error'', JStr ''Invalid location data'')]\<rparr>"
proof -
  let ?body = "sample_request (JStr ''iVBORw0KGgo='') (JNum (Fin 0)) (JNum (Fin 105.8342))"
  have img: "truthy (js_prop ?body ''imageData'')"
    by (simp add: sample_request_def)
  have zero: "js_prop (js_prop ?body ''location'') ''lat'' = JNum (Fin 0)
              \<or> js_prop (js_prop ?body ''location'') ''lng'' = JNum (Fin 0)"
    by (simp add: sample_request_def)
  from zero_coordinate_rejected [OF img zero] show ?thesis .
qed

text \<open>
  \<^bold>\<open>C10\<close>. In the echo server, a request that passes validation (an image, a
  location, both coordinates defined) and has a coordinate that is not a number
  ends in a 500: \<^verbatim>\<open>toFixed\<close> exists on numbers only.
\<close>

theorem echo_non_number_coordinate:
  assumes "truthy (js_prop body ''imageData'')"
      and "truthy (js_prop body ''location'')"
      and "js_typeof (js_prop (js_prop body ''location'') ''lat'') \<noteq> ''undefined''"
      and "js_typeof (js_prop (js_prop body ''location'') ''lng'') \<noteq> ''undefined''"
      and "js_typeof (js_prop (js_prop body ''location'') ''lat'') \<noteq> ''number''
           \<or> js_typeof (js_prop (js_prop body ''location'') ''lng'') \<noteq> ''number''"
  shows "status_code (handler Echo eng w body) = 500"
proof (cases "try_echo eng w body")
  case (Inl e)
  then show ?thesis by (simp add: handler_echo_def)
next
  case (Inr r)
  then show ?thesis
  proof (cases rule: try_echo_cases)
    case no_image
    with assms(1) show ?thesis by simp
  next
    case bad_location
    with assms(2-4) show ?thesis by (auto simp: js_typeof_undefined)
  next
    case (ok sizeInMB ds)
    from descriptions_need_numbers [OF ok(7)] assms(5) show ?thesis by simp
  qed
qed

text \<open>Coordinates sent as strings, as the page sends them once the map has moved.\<close>

theorem echo_non_number_coordinate_witness:
  "handler Echo sample_engine (sample_world NoResult)
      (sample_request (JStr ''iVBORw0KGgo='') (JStr ''21.0278'') (JStr ''105.8342'')) =
   \<lparr>status_code = 500,
    json = JObj [(''error'', JStr ''location.lat.toFixed is not a function''),
                 (''details'', JStr ''TypeError: location.lat.toFixed is not a function''),
                 (''timestamp'', JStr ''2025-01-01T00:00:00.000Z'')]\<rparr>"
proof -
  let ?body = "sample_request (JStr ''iVBORw0KGgo='') (JStr ''21.0278'') (JStr ''105.8342'')"
  have valid: "truthy (js_prop ?body ''imageData'')" "truthy (js_prop ?body ''location'')"
      "js_typeof (js_prop (js_prop ?body ''location'') ''lat'') \<noteq> ''undefined''"
      "js_typeof (js_prop (js_prop ?body ''location'') ''lng'') \<noteq> ''undefined''"
    by (simp_all add: sample_request_def)
  have strings: "js_typeof (js_prop (js_prop ?body ''location'') ''lat'') \<noteq> ''number''
              \<or> js_typeof (js_prop (js_prop ?body ''location'') ''lng'') \<noteq> ''number''"
    by (simp add: sample_request_def)
  have "json (handler Echo sample_engine (sample_world NoResult) ?body) =
        JObj [(''error'', JStr ''location.lat.toFixed is not a function''),
              (''details'', JStr ''TypeError: location.lat.toFixed is not a function''),
              (''timestamp'', JStr ''2025-01-01T00:00:00.000Z'')]"
    by (simp add: handler_echo_def try_echo_def eval_defs)
  with echo_non_number_coordinate [OF valid strings, of sample_engine "sample_world NoResult"]
  show ?thesis
    by (cases "handler Echo sample_engine (sample_world NoResult) ?body") simp
qed

end
